theory Spec2Isabelle
  imports Main "HOL-Library.Word" "HOL-Library.Signed_Division"
begin

unbundle bit_operations_syntax

section \<open>Lane types, vectors and build configuration\<close>

text \<open>
  A lane of width W is a \<open>W word\<close>; a signed lane type and an unsigned one of the same
  width share the representation and differ in the operations that read it (\<open>sint\<close>
  against \<open>unat\<close>, arithmetic against logical shift).  The C++ templates select the
  operation from the lane type; here the selection is the explicit argument
  \<open>signedness\<close>.  A vector is the list of its lanes and a descriptor \<open>D\<close> is the
  number of lanes it stands for.
\<close>

type_synonym 'a vec = "'a word list"
type_synonym mask = "bool list"
type_synonym tag = nat

datatype signedness = Signed | Unsigned

text \<open>
  The values of \<open>HWY_TARGET\<close> that intdiv-inl.h tests, and every other target.
\<close>

datatype target = NEON | PPC8 | VSX | AVX3 | AVX2 | OtherTarget

text \<open>
  \<open>HWY_INTDIV_SCALAR64\<close> (intdiv-inl.h lines 32-38), when the build does not
  predefine it.
\<close>

definition HWY_INTDIV_SCALAR64 :: "target \<Rightarrow> bool" where
  "HWY_INTDIV_SCALAR64 t = (t = NEON \<or> t = PPC8 \<or> t = VSX)"

text \<open>
  The branch of \<open>DivideHighBy\<close> that the preprocessor keeps: the one on
  \<open>unsigned __int128\<close>, or the portable one.  The third branch hands the division to
  the compiler intrinsic \<open>_udiv128\<close>, which is not part of the repository and is not
  modelled.
\<close>

datatype wide_div = NativeInt128 | PortableKnuth

section \<open>The SIMD vocabulary\<close>

text \<open>
  Modelled from the spec: the lane-wise operations of the SIMD layer (section 6 of the
  specification, "external vocabulary"), which intdiv-inl.h only calls.  Each acts on
  every lane independently; the arithmetic wraps at the lane width.
\<close>

definition Lanes :: "tag \<Rightarrow> nat" where
  "Lanes d = d"

definition Set_lanes :: "tag \<Rightarrow> 'a::len word \<Rightarrow> 'a vec" where
  "Set_lanes d x = replicate (Lanes d) x"

definition Zero :: "tag \<Rightarrow> 'a::len vec" where
  "Zero d = replicate (Lanes d) 0"

definition Add :: "'a::len vec \<Rightarrow> 'a vec \<Rightarrow> 'a vec" where
  "Add a b = map2 (+) a b"

definition Sub :: "'a::len vec \<Rightarrow> 'a vec \<Rightarrow> 'a vec" where
  "Sub a b = map2 (-) a b"

definition Mul :: "'a::len vec \<Rightarrow> 'a vec \<Rightarrow> 'a vec" where
  "Mul a b = map2 (*) a b"

definition And :: "'a::len vec \<Rightarrow> 'a vec \<Rightarrow> 'a vec" where
  "And a b = map2 (AND) a b"

definition Xor :: "'a::len vec \<Rightarrow> 'a vec \<Rightarrow> 'a vec" where
  "Xor a b = map2 (XOR) a b"

definition Neg :: "'a::len vec \<Rightarrow> 'a vec" where
  "Neg v = map uminus v"

text \<open>
  Modelled from the spec: the compile-time-count right shift \<open>ShiftRight<k>\<close> of the
  SIMD layer, arithmetic on signed lanes and logical on unsigned lanes.
\<close>

definition shr_lane :: "signedness \<Rightarrow> nat \<Rightarrow> 'a::len word \<Rightarrow> 'a word" where
  "shr_lane sg k x = (case sg of Signed \<Rightarrow> signed_drop_bit k x | Unsigned \<Rightarrow> drop_bit k x)"

definition ShiftRight :: "signedness \<Rightarrow> nat \<Rightarrow> 'a::len vec \<Rightarrow> 'a vec" where
  "ShiftRight sg k v = map (shr_lane sg k) v"

text \<open>
  Modelled from the spec: the high-half lane multiply \<open>MulHigh\<close> of the SIMD layer,
  the upper W bits of the 2W-bit product of two W-bit lanes, signed or unsigned.
\<close>

definition mulhi_lane :: "signedness \<Rightarrow> 'a::len word \<Rightarrow> 'a word \<Rightarrow> 'a word" where
  "mulhi_lane sg a b =
     (case sg of
        Signed \<Rightarrow> word_of_int ((sint a * sint b) div 2 ^ LENGTH('a))
      | Unsigned \<Rightarrow> word_of_nat ((unat a * unat b) div 2 ^ LENGTH('a)))"

definition MulHigh :: "signedness \<Rightarrow> 'a::len vec \<Rightarrow> 'a vec \<Rightarrow> 'a vec" where
  "MulHigh sg a b = map2 (mulhi_lane sg) a b"

text \<open>
  Modelled from the spec: promotion and demotion across lane widths.  Promotion keeps
  the value of the lane (sign extension for signed lanes, zero extension for unsigned
  ones); demotion saturates to the range of the narrow type.  \<open>IntDiv\<close> demotes
  the upper half of a double-width lane only, which is always in that range.
\<close>

definition promote_lane :: "signedness \<Rightarrow> 'a::len word \<Rightarrow> 'b::len word" where
  "promote_lane sg x = (case sg of Signed \<Rightarrow> scast x | Unsigned \<Rightarrow> ucast x)"

definition PromoteTo :: "signedness \<Rightarrow> 'a::len vec \<Rightarrow> 'b::len vec" where
  "PromoteTo sg v = map (promote_lane sg) v"

definition demote_lane :: "signedness \<Rightarrow> 'b::len word \<Rightarrow> 'a::len word" where
  "demote_lane sg x =
     (case sg of
        Signed \<Rightarrow>
          (if sint x < - (2 ^ (LENGTH('a) - 1)) then word_of_int (- (2 ^ (LENGTH('a) - 1)))
           else if 2 ^ (LENGTH('a) - 1) - 1 < sint x then word_of_int (2 ^ (LENGTH('a) - 1) - 1)
           else scast x)
      | Unsigned \<Rightarrow>
          (if 2 ^ LENGTH('a) - 1 < unat x then word_of_nat (2 ^ LENGTH('a) - 1)
           else ucast x))"

definition DemoteTo :: "signedness \<Rightarrow> 'b::len vec \<Rightarrow> 'a::len vec" where
  "DemoteTo sg v = map (demote_lane sg) v"

text \<open>
  Modelled from the spec: comparisons of the SIMD layer, which give a mask (one truth
  value per lane), the logical operations on masks and the mask-based select.
\<close>

definition Ne :: "'a::len vec \<Rightarrow> 'a vec \<Rightarrow> mask" where
  "Ne a b = map2 (\<lambda>x y. x \<noteq> y) a b"

definition Lt :: "signedness \<Rightarrow> 'a::len vec \<Rightarrow> 'a vec \<Rightarrow> mask" where
  "Lt sg a b =
     map2 (\<lambda>x y. case sg of Signed \<Rightarrow> sint x < sint y | Unsigned \<Rightarrow> x < y) a b"

definition And_mask :: "mask \<Rightarrow> mask \<Rightarrow> mask" where
  "And_mask a b = map2 (\<and>) a b"

definition Xor_mask :: "mask \<Rightarrow> mask \<Rightarrow> mask" where
  "Xor_mask a b = map2 (\<noteq>) a b"

definition IfThenElse :: "mask \<Rightarrow> 'a::len vec \<Rightarrow> 'a vec \<Rightarrow> 'a vec" where
  "IfThenElse m yes no = map2 (\<lambda>c (y, n). if c then y else n) m (zip yes no)"

section \<open>Helper functions (namespace detail)\<close>

text \<open>
  \<open>IsPow2\<close> (lines 138-141), called on unsigned values only.
\<close>

definition IsPow2 :: "'a::len word \<Rightarrow> bool" where
  "IsPow2 x = (0 < x \<and> x AND (x - 1) = 0)"

text \<open>
  \<open>CountTrailingZeros32\<close> (lines 144-160), the portable branch: the compiler builtins
  of the other two branches count the same bits.  The loop runs on a non-zero \<open>x\<close>
  only, because of the early return; the model repeats that condition in the loop
  test, which makes the recursion total.
\<close>

function ctz_loop :: "32 word \<Rightarrow> int \<Rightarrow> int" where
  "ctz_loop x count =
     (if x \<noteq> 0 \<and> x AND 1 = 0 then ctz_loop (drop_bit 1 x) (count + 1) else count)"
  by pat_completeness auto
termination
proof (relation "measure (\<lambda>(x, count). unat x)")
  show "wf (measure (\<lambda>(x :: 32 word, count :: int). unat x))"
    by simp
next
  fix x :: "32 word" and count :: int
  assume "x \<noteq> 0 \<and> x AND 1 = 0"
  then have "unat x \<noteq> 0"
    by (simp add: unat_eq_0)
  then have "unat x div 2 < unat x"
    by simp
  moreover have "unat (drop_bit 1 x) = unat x div 2"
    by (simp add: drop_bit_eq_div unat_div)
  ultimately show "((drop_bit 1 x, count + 1), (x, count)) \<in> measure (\<lambda>(x, count). unat x)"
    by (simp only: in_measure prod.case)
qed

declare ctz_loop.simps [simp del]

definition CountTrailingZeros32 :: "32 word \<Rightarrow> int" where
  "CountTrailingZeros32 x = (if x = 0 then 32 else ctz_loop x 0)"

text \<open>
  \<open>CountTrailingZeros64\<close> (lines 162-177), the portable branch.
\<close>

definition CountTrailingZeros64 :: "64 word \<Rightarrow> int" where
  "CountTrailingZeros64 x =
     (if x = 0 then 64
      else let lo = (ucast x :: 32 word) in
        if lo \<noteq> 0 then CountTrailingZeros32 lo
        else 32 + CountTrailingZeros32 (ucast (drop_bit 32 x)))"

text \<open>
  \<open>LeadingZeroCount32\<close> (lines 179-196), the portable branch.  The C++ type
  \<open>unsigned\<close> is a 32-bit word.
\<close>

definition LeadingZeroCount32 :: "32 word \<Rightarrow> 32 word" where
  "LeadingZeroCount32 x =
     (if x = 0 then 32
      else
        let (n, x) = (if x \<le> 0x0000FFFF then (16, push_bit 16 x) else (0, x));
            (n, x) = (if x \<le> 0x00FFFFFF then (n + 8, push_bit 8 x) else (n, x));
            (n, x) = (if x \<le> 0x0FFFFFFF then (n + 4, push_bit 4 x) else (n, x));
            (n, x) = (if x \<le> 0x3FFFFFFF then (n + 2, push_bit 2 x) else (n, x));
            n = (if x \<le> 0x7FFFFFFF then n + 1 else n)
        in n)"

text \<open>
  \<open>LeadingZeroCount64\<close> (lines 198-213), the portable branch.
\<close>

definition LeadingZeroCount64 :: "64 word \<Rightarrow> 32 word" where
  "LeadingZeroCount64 x =
     (if x = 0 then 64
      else let hi = (ucast (drop_bit 32 x) :: 32 word) in
        if hi \<noteq> 0 then LeadingZeroCount32 hi
        else 32 + LeadingZeroCount32 (ucast x))"

text \<open>
  \<open>DivideHighBy\<close> (lines 250-291).  With a zero divisor the division instruction
  traps (and \<open>HWY_DASSERT\<close> aborts a debug build): the result is \<open>None\<close>.

  The correction loop of the portable branch (lines 279-283) works on \<open>qh\<close> and
  \<open>rem\<close>; it ends because \<open>qh\<close> is not zero whenever the loop test holds, and
  decreases.
\<close>

function knuth_adjust :: "32 word \<Rightarrow> 32 word \<Rightarrow> 64 word \<Rightarrow> 64 word \<Rightarrow> 64 word \<times> 64 word" where
  "knuth_adjust dh dl qh rem =
     (if qh \<ge> push_bit 32 1 \<or> qh * ucast dl > push_bit 32 rem then
        let qh' = qh - 1; rem' = rem + ucast dh in
          if rem' \<ge> push_bit 32 1 then (qh', rem') else knuth_adjust dh dl qh' rem'
      else (qh, rem))"
  by pat_completeness auto
termination
proof (relation "measure (\<lambda>(dh, dl, qh, rem). unat qh)", goal_cases)
  case 1
  show ?case by simp
next
  case (2 dh dl qh rem x xa)
  have nz: "qh \<noteq> 0"
  proof
    assume "qh = 0"
    with 2(1) show False by simp
  qed
  then have "0 < unat qh"
    by (simp add: unat_gt_0)
  with nz have "unat (qh - 1) < unat qh"
    by (simp add: unat_minus_one)
  with 2 show ?case by simp
qed

declare knuth_adjust.simps [simp del]

definition DivideHighBy_int128 :: "64 word \<Rightarrow> 64 word \<Rightarrow> 64 word" where
  "DivideHighBy_int128 high divisor =
     ucast (push_bit 64 (ucast high :: 128 word) div (ucast divisor :: 128 word))"

definition DivideHighBy_portable :: "64 word \<Rightarrow> 64 word \<Rightarrow> 64 word" where
  "DivideHighBy_portable high0 divisor =
     (let high = high0 mod divisor in
      if high = 0 then 0
      else
        let ldz = LeadingZeroCount64 divisor;
            d_norm = push_bit (unat ldz) divisor;
            n_norm = push_bit (unat ldz) high;
            dh = (ucast (drop_bit 32 d_norm) :: 32 word);
            dl = (ucast (d_norm AND 0xFFFFFFFF) :: 32 word);
            qh0 = n_norm div ucast dh;
            rem0 = n_norm - qh0 * ucast dh;
            (qh, rem) = knuth_adjust dh dl qh0 rem0;
            dividend_pairs = push_bit 32 n_norm - d_norm * qh;
            ql = (ucast (dividend_pairs div ucast dh) :: 32 word)
        in push_bit 32 qh OR ucast ql)"

definition DivideHighBy :: "wide_div \<Rightarrow> 64 word \<Rightarrow> 64 word \<Rightarrow> 64 word option" where
  "DivideHighBy w high divisor =
     (if divisor = 0 then None
      else case w of
        NativeInt128 \<Rightarrow> Some (DivideHighBy_int128 high divisor)
      | PortableKnuth \<Rightarrow> Some (DivideHighBy_portable high divisor))"

text \<open>
  Modelled from the spec: the per-lane variable-count right shift of the SIMD layer
  (\<open>ShiftRight(d, v, svec)\<close> in the source), which shifts each lane by the count held
  in the same lane of \<open>svec\<close>, a vector of signed lanes.
\<close>

definition ShiftRight_var :: "signedness \<Rightarrow> 'a::len vec \<Rightarrow> 'a vec \<Rightarrow> 'a vec" where
  "ShiftRight_var sg v svec = map2 (\<lambda>x c. shr_lane sg (nat (sint c)) x) v svec"

text \<open>
  \<open>ShiftRightUniform\<close> (lines 395-439).  On NEON and AVX3, and on AVX2 for 32-bit
  lanes, the count is broadcast and the vector shifted by the per-lane variable shift;
  everywhere else the count is split into the immediates 32, 16, 8, 4, 2, 1, tried in
  that order, the first two for the lane sizes that the source's \<open>if constexpr\<close>
  admits.
\<close>

definition ShiftRightUniform :: "target \<Rightarrow> signedness \<Rightarrow> tag \<Rightarrow> 'a::len vec \<Rightarrow> int \<Rightarrow> 'a vec" where
  "ShiftRightUniform t sg d v sh0 =
     (let bits = int LENGTH('a) in
      if sh0 \<le> 0 then v
      else
        let sh = (if sh0 \<ge> bits then bits - 1 else sh0) in
        if t = NEON \<or> t = AVX3 \<or> (t = AVX2 \<and> LENGTH('a) = 32) then
          ShiftRight_var sg v (Set_lanes d (word_of_int sh))
        else
          let v = (if LENGTH('a) = 64 \<and> sh AND 32 \<noteq> 0 then ShiftRight sg 32 v else v);
              v = (if LENGTH('a) \<ge> 32 \<and> sh AND 16 \<noteq> 0 then ShiftRight sg 16 v else v);
              v = (if sh AND 8 \<noteq> 0 then ShiftRight sg 8 v else v);
              v = (if sh AND 4 \<noteq> 0 then ShiftRight sg 4 v else v);
              v = (if sh AND 2 \<noteq> 0 then ShiftRight sg 2 v else v);
              v = (if sh AND 1 \<noteq> 0 then ShiftRight sg 1 v else v)
          in v)"

text \<open>
  \<open>ScalarDivPerLane\<close> (lines 441-451): the vector is stored to a buffer, each of the
  \<open>Lanes(d)\<close> entries is divided with the C++ operator (truncation toward zero), and
  the buffer is loaded back.
\<close>

definition scalar_div_lane :: "signedness \<Rightarrow> 'a::len word \<Rightarrow> 'a word \<Rightarrow> 'a word" where
  "scalar_div_lane sg x divisor =
     (case sg of
        Signed \<Rightarrow> word_of_int (sint x sdiv sint divisor)
      | Unsigned \<Rightarrow> x div divisor)"

definition ScalarDivPerLane :: "signedness \<Rightarrow> tag \<Rightarrow> 'a::len vec \<Rightarrow> 'a word \<Rightarrow> 'a vec" where
  "ScalarDivPerLane sg d dividend divisor = map (\<lambda>x. scalar_div_lane sg x divisor) dividend"

section \<open>Divisor parameters\<close>

text \<open>
  \<open>DivisorParamsU<T>\<close> and \<open>DivisorParamsS<T>\<close> (lines 111-129); \<open>'t\<close> is the lane
  type \<open>T\<close> and \<open>'m\<close> the multiplier type \<open>MulType_t<T>\<close> (lines 55-104): twice as
  wide as \<open>T\<close> for 8-bit and 16-bit lanes, \<open>T\<close> itself for 32-bit and 64-bit lanes.
  The two structs share field names; the fields of the unsigned one are written with
  the qualifier \<open>DivisorParamsU\<close>.

  On a divisor that is not a power of two the source leaves \<open>pow2_shift\<close> unwritten;
  the model stores 0 there, and no function reads the field unless \<open>is_pow2\<close> holds.
\<close>

record ('t, 'm) DivisorParamsU =
  multiplier :: "'m"
  shift1 :: int
  shift2 :: int
  is_pow2 :: bool
  pow2_shift :: int
  divisor :: "'t"

record ('t, 'm) DivisorParamsS =
  multiplier :: "'m"
  shift :: int
  divisor :: "'t"
  is_pow2 :: bool
  pow2_shift :: int

subsection \<open>ComputeDivisorParams, unsigned\<close>

text \<open>
  The result is \<open>None\<close> where the source aborts (\<open>HWY_ABORT\<close> on a zero divisor).
  Local variables of type \<open>unsigned\<close> are 32-bit words; \<open>static_cast<int>\<close> of such a
  value is its two's-complement reading \<open>sint\<close>.

  Unsigned 8-bit (lines 461-503).  In \<open>two_l - divisor\<close> both operands are promoted to
  \<open>int\<close> and the difference is converted to \<open>uint32_t\<close>: that is the difference of
  the zero-extended operands in 32-bit words.
\<close>

definition ComputeDivisorParams_u8 :: "8 word \<Rightarrow> (8 word, 16 word) DivisorParamsU option" where
  "ComputeDivisorParams_u8 dv =
     (if dv = 0 then None
      else if IsPow2 dv then
        Some \<lparr> DivisorParamsU.multiplier = 1, shift1 = 0, shift2 = 0,
               DivisorParamsU.is_pow2 = True,
               DivisorParamsU.pow2_shift = CountTrailingZeros32 (ucast dv),
               DivisorParamsU.divisor = dv \<rparr>
      else if dv = 1 then
        Some \<lparr> DivisorParamsU.multiplier = 1, shift1 = 0, shift2 = 0,
               DivisorParamsU.is_pow2 = False, DivisorParamsU.pow2_shift = 0,
               DivisorParamsU.divisor = dv \<rparr>
      else
        let l = 32 - LeadingZeroCount32 (ucast dv - 1);
            two_l = (if l = 8 then 0 else (ucast (push_bit (unat l) (1 :: 32 word)) :: 16 word));
            m = push_bit 8 ((ucast two_l :: 32 word) - ucast dv) div ucast dv + 1
        in Some \<lparr> DivisorParamsU.multiplier = ucast m, shift1 = 1, shift2 = sint (l - 1),
                    DivisorParamsU.is_pow2 = False, DivisorParamsU.pow2_shift = 0,
                    DivisorParamsU.divisor = dv \<rparr>)"

text \<open>
  Unsigned 16-bit (lines 506-548): \<open>two_l - divisor\<close> is a \<open>uint32_t\<close> difference,
  widened to 64 bits before the shift; the quotient plus one is cut to \<open>uint32_t\<close>.
\<close>

definition ComputeDivisorParams_u16 :: "16 word \<Rightarrow> (16 word, 32 word) DivisorParamsU option" where
  "ComputeDivisorParams_u16 dv =
     (if dv = 0 then None
      else if IsPow2 dv then
        Some \<lparr> DivisorParamsU.multiplier = 1, shift1 = 0, shift2 = 0,
               DivisorParamsU.is_pow2 = True,
               DivisorParamsU.pow2_shift = CountTrailingZeros32 (ucast dv),
               DivisorParamsU.divisor = dv \<rparr>
      else if dv = 1 then
        Some \<lparr> DivisorParamsU.multiplier = 1, shift1 = 0, shift2 = 0,
               DivisorParamsU.is_pow2 = False, DivisorParamsU.pow2_shift = 0,
               DivisorParamsU.divisor = dv \<rparr>
      else
        let l = 32 - LeadingZeroCount32 (ucast dv - 1);
            two_l = (if l = 16 then 0 else push_bit (unat l) (1 :: 32 word));
            m = (ucast (push_bit 16 (ucast (two_l - ucast dv) :: 64 word) div ucast dv + 1)
                   :: 32 word)
        in Some \<lparr> DivisorParamsU.multiplier = m, shift1 = 1, shift2 = sint (l - 1),
                    DivisorParamsU.is_pow2 = False, DivisorParamsU.pow2_shift = 0,
                    DivisorParamsU.divisor = dv \<rparr>)"

text \<open>
  Unsigned 32-bit (lines 551-593): all of the arithmetic is in \<open>uint64_t\<close>; the
  multiplier is the low half of \<open>m\<close>.
\<close>

definition ComputeDivisorParams_u32 :: "32 word \<Rightarrow> (32 word, 32 word) DivisorParamsU option" where
  "ComputeDivisorParams_u32 dv =
     (if dv = 0 then None
      else if IsPow2 dv then
        Some \<lparr> DivisorParamsU.multiplier = 1, shift1 = 0, shift2 = 0,
               DivisorParamsU.is_pow2 = True,
               DivisorParamsU.pow2_shift = CountTrailingZeros32 dv,
               DivisorParamsU.divisor = dv \<rparr>
      else if dv = 1 then
        Some \<lparr> DivisorParamsU.multiplier = 1, shift1 = 0, shift2 = 0,
               DivisorParamsU.is_pow2 = False, DivisorParamsU.pow2_shift = 0,
               DivisorParamsU.divisor = dv \<rparr>
      else
        let l = 32 - LeadingZeroCount32 (dv - 1);
            two_l = (if l = 32 then 0 else push_bit (unat l) (1 :: 64 word));
            m = push_bit 32 (two_l - ucast dv) div ucast dv + 1
        in Some \<lparr> DivisorParamsU.multiplier = ucast m, shift1 = 1, shift2 = sint (l - 1),
                    DivisorParamsU.is_pow2 = False, DivisorParamsU.pow2_shift = 0,
                    DivisorParamsU.divisor = dv \<rparr>)"

text \<open>
  Unsigned 64-bit (lines 596-637); the argument \<open>w\<close> is the branch of
  \<open>DivideHighBy\<close> that the build compiles.
\<close>

definition ComputeDivisorParams_u64 ::
    "wide_div \<Rightarrow> 64 word \<Rightarrow> (64 word, 64 word) DivisorParamsU option" where
  "ComputeDivisorParams_u64 w dv =
     (if dv = 0 then None
      else if IsPow2 dv then
        Some \<lparr> DivisorParamsU.multiplier = 1, shift1 = 0, shift2 = 0,
               DivisorParamsU.is_pow2 = True,
               DivisorParamsU.pow2_shift = CountTrailingZeros64 dv,
               DivisorParamsU.divisor = dv \<rparr>
      else if dv = 1 then
        Some \<lparr> DivisorParamsU.multiplier = 1, shift1 = 0, shift2 = 0,
               DivisorParamsU.is_pow2 = False, DivisorParamsU.pow2_shift = 0,
               DivisorParamsU.divisor = dv \<rparr>
      else
        let l = 64 - LeadingZeroCount64 (dv - 1);
            two_l_minus_d = (if l < 64 then push_bit (unat l) 1 - dv else 0 - dv)
        in case DivideHighBy w two_l_minus_d dv of
             None \<Rightarrow> None
           | Some q \<Rightarrow>
               Some \<lparr> DivisorParamsU.multiplier = q + 1, shift1 = 1, shift2 = sint (l - 1),
                      DivisorParamsU.is_pow2 = False, DivisorParamsU.pow2_shift = 0,
                      DivisorParamsU.divisor = dv \<rparr>)"

subsection \<open>ComputeDivisorParams, signed\<close>

text \<open>
  \<open>abs_d = static_cast<UT>(divisor < 0 ? -divisor : divisor)\<close>.  For 8-bit and 16-bit
  lanes the negation is done in \<open>int\<close> and the conversion to \<open>UT\<close> reduces it modulo
  \<open>2^W\<close>; for 32-bit and 64-bit lanes the negation of the minimum value overflows
  the signed type, and the model takes the two's-complement result that the hardware
  gives.  In both cases the value is the negation in \<open>W word\<close>.

  Signed 8-bit (lines 640-687).
\<close>

definition ComputeDivisorParams_s8 :: "8 word \<Rightarrow> (8 word, 16 word) DivisorParamsS option" where
  "ComputeDivisorParams_s8 dv =
     (if dv = 0 then None
      else
        let abs_d = (if sint dv < 0 then - dv else dv) in
        if IsPow2 abs_d then
          Some \<lparr> multiplier = 1, shift = 0, divisor = dv, is_pow2 = True,
                 pow2_shift = CountTrailingZeros32 (ucast abs_d) \<rparr>
        else if abs_d = 1 then
          Some \<lparr> multiplier = 1, shift = 0, divisor = dv, is_pow2 = False, pow2_shift = 0 \<rparr>
        else if dv = 0x80 then
          Some \<lparr> multiplier = 0x81, shift = 6, divisor = dv, is_pow2 = False, pow2_shift = 0 \<rparr>
        else
          let sh = 31 - LeadingZeroCount32 (ucast abs_d - 1);
              m = push_bit (unat sh) (256 :: 32 word) div ucast abs_d + 1
          in Some \<lparr> multiplier = ucast m, shift = sint sh, divisor = dv,
                      is_pow2 = False, pow2_shift = 0 \<rparr>)"

text \<open>
  Signed 16-bit (lines 690-737): the quotient is formed in 64 bits and cut to
  \<open>uint32_t\<close>.
\<close>

definition ComputeDivisorParams_s16 :: "16 word \<Rightarrow> (16 word, 32 word) DivisorParamsS option" where
  "ComputeDivisorParams_s16 dv =
     (if dv = 0 then None
      else
        let abs_d = (if sint dv < 0 then - dv else dv) in
        if IsPow2 abs_d then
          Some \<lparr> multiplier = 1, shift = 0, divisor = dv, is_pow2 = True,
                 pow2_shift = CountTrailingZeros32 (ucast abs_d) \<rparr>
        else if abs_d = 1 then
          Some \<lparr> multiplier = 1, shift = 0, divisor = dv, is_pow2 = False, pow2_shift = 0 \<rparr>
        else if dv = 0x8000 then
          Some \<lparr> multiplier = 0x8001, shift = 14, divisor = dv, is_pow2 = False,
                 pow2_shift = 0 \<rparr>
        else
          let sh = 31 - LeadingZeroCount32 (ucast abs_d - 1);
              m = (ucast (push_bit (unat sh) (65536 :: 64 word) div ucast abs_d + 1) :: 32 word)
          in Some \<lparr> multiplier = m, shift = sint sh, divisor = dv,
                      is_pow2 = False, pow2_shift = 0 \<rparr>)"

text \<open>
  Signed 32-bit (lines 740-787).
\<close>

definition ComputeDivisorParams_s32 :: "32 word \<Rightarrow> (32 word, 32 word) DivisorParamsS option" where
  "ComputeDivisorParams_s32 dv =
     (if dv = 0 then None
      else
        let abs_d = (if sint dv < 0 then - dv else dv) in
        if IsPow2 abs_d then
          Some \<lparr> multiplier = 1, shift = 0, divisor = dv, is_pow2 = True,
                 pow2_shift = CountTrailingZeros32 abs_d \<rparr>
        else if abs_d = 1 then
          Some \<lparr> multiplier = 1, shift = 0, divisor = dv, is_pow2 = False, pow2_shift = 0 \<rparr>
        else if dv = 0x80000000 then
          Some \<lparr> multiplier = 0x80000001, shift = 30, divisor = dv, is_pow2 = False,
                 pow2_shift = 0 \<rparr>
        else
          let sh = 31 - LeadingZeroCount32 (abs_d - 1);
              m = push_bit (unat sh) (0x100000000 :: 64 word) div ucast abs_d + 1
          in Some \<lparr> multiplier = ucast m, shift = sint sh, divisor = dv,
                      is_pow2 = False, pow2_shift = 0 \<rparr>)"

text \<open>
  Signed 64-bit (lines 790-837).
\<close>

definition ComputeDivisorParams_s64 ::
    "wide_div \<Rightarrow> 64 word \<Rightarrow> (64 word, 64 word) DivisorParamsS option" where
  "ComputeDivisorParams_s64 w dv =
     (if dv = 0 then None
      else
        let abs_d = (if sint dv < 0 then - dv else dv) in
        if IsPow2 abs_d then
          Some \<lparr> multiplier = 1, shift = 0, divisor = dv, is_pow2 = True,
                 pow2_shift = CountTrailingZeros64 abs_d \<rparr>
        else if abs_d = 1 then
          Some \<lparr> multiplier = 1, shift = 0, divisor = dv, is_pow2 = False, pow2_shift = 0 \<rparr>
        else if dv = 0x8000000000000000 then
          Some \<lparr> multiplier = 0x8000000000000001, shift = 62, divisor = dv, is_pow2 = False,
                 pow2_shift = 0 \<rparr>
        else
          let sh = 63 - LeadingZeroCount64 (abs_d - 1) in
          case DivideHighBy w (push_bit (unat sh) 1) abs_d of
            None \<Rightarrow> None
          | Some q \<Rightarrow>
              Some \<lparr> multiplier = q + 1, shift = sint sh, divisor = dv,
                     is_pow2 = False, pow2_shift = 0 \<rparr>)"

section \<open>IntDiv: the truncating quotient\<close>

text \<open>
  \<open>IntDiv\<close> for unsigned lanes (lines 844-913), one definition for each lane width:
  the template picks its branch with \<open>if constexpr (sizeof(T) == ...)\<close>.  The
  descriptor of the double-width lanes stands for as many lanes as \<open>d\<close>; the
  \<open>HWY_DASSERT\<close> on the divisor exists in debug builds only and is left out.
\<close>

definition IntDiv_u8 ::
    "target \<Rightarrow> tag \<Rightarrow> 8 vec \<Rightarrow> (8 word, 16 word) DivisorParamsU \<Rightarrow> 8 vec" where
  "IntDiv_u8 t d dividend params =
     (if DivisorParamsU.is_pow2 params then
        ShiftRightUniform t Unsigned d dividend (DivisorParamsU.pow2_shift params)
      else if shift1 params = 0 \<and> shift2 params = 0 \<and> DivisorParamsU.multiplier params = 1 then
        dividend
      else
        let dividend_16 = (PromoteTo Unsigned dividend :: 16 vec);
            multiplier_16 = Set_lanes d (DivisorParamsU.multiplier params);
            prod = Mul dividend_16 multiplier_16;
            t1 = (DemoteTo Unsigned (ShiftRight Unsigned 8 prod) :: 8 vec);
            diff = Sub dividend t1;
            shifted = ShiftRightUniform t Unsigned d diff (shift1 params);
            sum = Add t1 shifted
        in ShiftRightUniform t Unsigned d sum (shift2 params))"

definition IntDiv_u16 ::
    "target \<Rightarrow> tag \<Rightarrow> 16 vec \<Rightarrow> (16 word, 32 word) DivisorParamsU \<Rightarrow> 16 vec" where
  "IntDiv_u16 t d dividend params =
     (if DivisorParamsU.is_pow2 params then
        ShiftRightUniform t Unsigned d dividend (DivisorParamsU.pow2_shift params)
      else if shift1 params = 0 \<and> shift2 params = 0 \<and> DivisorParamsU.multiplier params = 1 then
        dividend
      else
        let dividend_32 = (PromoteTo Unsigned dividend :: 32 vec);
            multiplier_32 = Set_lanes d (DivisorParamsU.multiplier params);
            prod = Mul dividend_32 multiplier_32;
            t1 = (DemoteTo Unsigned (ShiftRight Unsigned 16 prod) :: 16 vec);
            diff = Sub dividend t1;
            shifted = ShiftRightUniform t Unsigned d diff (shift1 params);
            sum = Add t1 shifted
        in ShiftRightUniform t Unsigned d sum (shift2 params))"

definition IntDiv_u32 ::
    "target \<Rightarrow> tag \<Rightarrow> 32 vec \<Rightarrow> (32 word, 32 word) DivisorParamsU \<Rightarrow> 32 vec" where
  "IntDiv_u32 t d dividend params =
     (if DivisorParamsU.is_pow2 params then
        ShiftRightUniform t Unsigned d dividend (DivisorParamsU.pow2_shift params)
      else if shift1 params = 0 \<and> shift2 params = 0 \<and> DivisorParamsU.multiplier params = 1 then
        dividend
      else
        let multiplier = Set_lanes d (DivisorParamsU.multiplier params);
            t1 = MulHigh Unsigned dividend multiplier;
            diff = Sub dividend t1;
            shifted = ShiftRightUniform t Unsigned d diff (shift1 params);
            sum = Add t1 shifted
        in ShiftRightUniform t Unsigned d sum (shift2 params))"

definition IntDiv_u64 ::
    "target \<Rightarrow> tag \<Rightarrow> 64 vec \<Rightarrow> (64 word, 64 word) DivisorParamsU \<Rightarrow> 64 vec" where
  "IntDiv_u64 t d dividend params =
     (if DivisorParamsU.is_pow2 params then
        ShiftRightUniform t Unsigned d dividend (DivisorParamsU.pow2_shift params)
      else if shift1 params = 0 \<and> shift2 params = 0 \<and> DivisorParamsU.multiplier params = 1 then
        dividend
      else if HWY_INTDIV_SCALAR64 t then
        ScalarDivPerLane Unsigned d dividend (DivisorParamsU.divisor params)
      else
        let multiplier = Set_lanes d (DivisorParamsU.multiplier params);
            t1 = MulHigh Unsigned dividend multiplier;
            diff = Sub dividend t1;
            shifted = ShiftRightUniform t Unsigned d diff (shift1 params);
            sum = Add t1 shifted
        in ShiftRightUniform t Unsigned d sum (shift2 params))"

text \<open>
  \<open>IntDiv\<close> for signed lanes (lines 916-1019).  In the test
  \<open>params.pow2_shift < sizeof(T) * 8\<close> the left operand is converted to \<open>size_t\<close>, so
  that a negative count fails it.
\<close>

definition IntDiv_s8 ::
    "target \<Rightarrow> tag \<Rightarrow> 8 vec \<Rightarrow> (8 word, 16 word) DivisorParamsS \<Rightarrow> 8 vec" where
  "IntDiv_s8 t d dividend params =
     (let neg_divisor = (sint (divisor params) < 0) in
      if is_pow2 params then
        let mask_val = (if 0 \<le> pow2_shift params \<and> pow2_shift params < 8
                        then push_bit (nat (pow2_shift params)) 1 - 1 else - 1);
            mask = Set_lanes d mask_val;
            sign = ShiftRight Signed 7 dividend;
            bias = And sign mask;
            q = ShiftRightUniform t Signed d (Add dividend bias) (pow2_shift params)
        in if neg_divisor then Neg q else q
      else if shift params = 0 \<and> multiplier params = 1 then
        (if neg_divisor then Neg dividend else dividend)
      else
        let dividend_16 = (PromoteTo Signed dividend :: 16 vec);
            multiplier_16 = Set_lanes d (multiplier params);
            prod = Mul dividend_16 multiplier_16;
            high = (DemoteTo Signed (ShiftRight Signed 8 prod) :: 8 vec);
            q0 = Add dividend high;
            q0 = ShiftRightUniform t Signed d q0 (shift params);
            sign_dividend = ShiftRight Signed 7 dividend;
            q0 = Sub q0 sign_dividend
        in if neg_divisor then
             let neg_one = Set_lanes d (- 1);
                 q0 = Xor q0 neg_one
             in Sub q0 neg_one
           else q0)"

definition IntDiv_s16 ::
    "target \<Rightarrow> tag \<Rightarrow> 16 vec \<Rightarrow> (16 word, 32 word) DivisorParamsS \<Rightarrow> 16 vec" where
  "IntDiv_s16 t d dividend params =
     (let neg_divisor = (sint (divisor params) < 0) in
      if is_pow2 params then
        let mask_val = (if 0 \<le> pow2_shift params \<and> pow2_shift params < 16
                        then push_bit (nat (pow2_shift params)) 1 - 1 else - 1);
            mask = Set_lanes d mask_val;
            sign = ShiftRight Signed 15 dividend;
            bias = And sign mask;
            q = ShiftRightUniform t Signed d (Add dividend bias) (pow2_shift params)
        in if neg_divisor then Neg q else q
      else if shift params = 0 \<and> multiplier params = 1 then
        (if neg_divisor then Neg dividend else dividend)
      else
        let dividend_32 = (PromoteTo Signed dividend :: 32 vec);
            multiplier_32 = Set_lanes d (multiplier params);
            prod = Mul dividend_32 multiplier_32;
            high = (DemoteTo Signed (ShiftRight Signed 16 prod) :: 16 vec);
            q0 = Add dividend high;
            q0 = ShiftRightUniform t Signed d q0 (shift params);
            sign_dividend = ShiftRight Signed 15 dividend;
            q0 = Sub q0 sign_dividend
        in if neg_divisor then
             let neg_one = Set_lanes d (- 1);
                 q0 = Xor q0 neg_one
             in Sub q0 neg_one
           else q0)"

definition IntDiv_s32 ::
    "target \<Rightarrow> tag \<Rightarrow> 32 vec \<Rightarrow> (32 word, 32 word) DivisorParamsS \<Rightarrow> 32 vec" where
  "IntDiv_s32 t d dividend params =
     (let neg_divisor = (sint (divisor params) < 0) in
      if is_pow2 params then
        let mask_val = (if 0 \<le> pow2_shift params \<and> pow2_shift params < 32
                        then push_bit (nat (pow2_shift params)) 1 - 1 else - 1);
            mask = Set_lanes d mask_val;
            sign = ShiftRight Signed 31 dividend;
            bias = And sign mask;
            q = ShiftRightUniform t Signed d (Add dividend bias) (pow2_shift params)
        in if neg_divisor then Neg q else q
      else if shift params = 0 \<and> multiplier params = 1 then
        (if neg_divisor then Neg dividend else dividend)
      else
        let multiplier = Set_lanes d (multiplier params);
            mulh = MulHigh Signed dividend multiplier;
            q0 = Add dividend mulh;
            q0 = ShiftRightUniform t Signed d q0 (shift params);
            sign_dividend = ShiftRight Signed 31 dividend;
            q0 = Sub q0 sign_dividend
        in if neg_divisor then
             let neg_one = Set_lanes d (- 1);
                 q0 = Xor q0 neg_one
             in Sub q0 neg_one
           else q0)"

definition IntDiv_s64 ::
    "target \<Rightarrow> tag \<Rightarrow> 64 vec \<Rightarrow> (64 word, 64 word) DivisorParamsS \<Rightarrow> 64 vec" where
  "IntDiv_s64 t d dividend params =
     (let neg_divisor = (sint (divisor params) < 0) in
      if is_pow2 params then
        let mask_val = (if 0 \<le> pow2_shift params \<and> pow2_shift params < 64
                        then push_bit (nat (pow2_shift params)) 1 - 1 else - 1);
            mask = Set_lanes d mask_val;
            sign = ShiftRight Signed 63 dividend;
            bias = And sign mask;
            q = ShiftRightUniform t Signed d (Add dividend bias) (pow2_shift params)
        in if neg_divisor then Neg q else q
      else if shift params = 0 \<and> multiplier params = 1 then
        (if neg_divisor then Neg dividend else dividend)
      else if HWY_INTDIV_SCALAR64 t then
        ScalarDivPerLane Signed d dividend (divisor params)
      else
        let multiplier = Set_lanes d (multiplier params);
            mulh = MulHigh Signed dividend multiplier;
            q0 = Add dividend mulh;
            q0 = ShiftRightUniform t Signed d q0 (shift params);
            sign_dividend = ShiftRight Signed 63 dividend;
            q0 = Sub q0 sign_dividend
        in if neg_divisor then
             let neg_one = Set_lanes d (- 1);
                 q0 = Xor q0 neg_one
             in Sub q0 neg_one
           else q0)"

section \<open>IntDivFloor: the flooring quotient\<close>

text \<open>
  \<open>IntDivFloor\<close> for signed lanes (lines 1026-1040) and for unsigned lanes
  (lines 1043-1046).
\<close>

definition IntDivFloor_s8 ::
    "target \<Rightarrow> tag \<Rightarrow> 8 vec \<Rightarrow> (8 word, 16 word) DivisorParamsS \<Rightarrow> 8 vec" where
  "IntDivFloor_s8 t d dividend params =
     (let q = IntDiv_s8 t d dividend params;
          divisor = Set_lanes d (divisor params);
          prod = Mul q divisor;
          neq = Ne dividend prod;
          sdiff = Xor_mask (Lt Signed dividend (Zero d)) (Lt Signed divisor (Zero d));
          one = Set_lanes d 1
      in Sub q (IfThenElse (And_mask neq sdiff) one (Zero d)))"

definition IntDivFloor_s16 ::
    "target \<Rightarrow> tag \<Rightarrow> 16 vec \<Rightarrow> (16 word, 32 word) DivisorParamsS \<Rightarrow> 16 vec" where
  "IntDivFloor_s16 t d dividend params =
     (let q = IntDiv_s16 t d dividend params;
          divisor = Set_lanes d (divisor params);
          prod = Mul q divisor;
          neq = Ne dividend prod;
          sdiff = Xor_mask (Lt Signed dividend (Zero d)) (Lt Signed divisor (Zero d));
          one = Set_lanes d 1
      in Sub q (IfThenElse (And_mask neq sdiff) one (Zero d)))"

definition IntDivFloor_s32 ::
    "target \<Rightarrow> tag \<Rightarrow> 32 vec \<Rightarrow> (32 word, 32 word) DivisorParamsS \<Rightarrow> 32 vec" where
  "IntDivFloor_s32 t d dividend params =
     (let q = IntDiv_s32 t d dividend params;
          divisor = Set_lanes d (divisor params);
          prod = Mul q divisor;
          neq = Ne dividend prod;
          sdiff = Xor_mask (Lt Signed dividend (Zero d)) (Lt Signed divisor (Zero d));
          one = Set_lanes d 1
      in Sub q (IfThenElse (And_mask neq sdiff) one (Zero d)))"

definition IntDivFloor_s64 ::
    "target \<Rightarrow> tag \<Rightarrow> 64 vec \<Rightarrow> (64 word, 64 word) DivisorParamsS \<Rightarrow> 64 vec" where
  "IntDivFloor_s64 t d dividend params =
     (let q = IntDiv_s64 t d dividend params;
          divisor = Set_lanes d (divisor params);
          prod = Mul q divisor;
          neq = Ne dividend prod;
          sdiff = Xor_mask (Lt Signed dividend (Zero d)) (Lt Signed divisor (Zero d));
          one = Set_lanes d 1
      in Sub q (IfThenElse (And_mask neq sdiff) one (Zero d)))"

definition IntDivFloor_u8 ::
    "target \<Rightarrow> tag \<Rightarrow> 8 vec \<Rightarrow> (8 word, 16 word) DivisorParamsU \<Rightarrow> 8 vec" where
  "IntDivFloor_u8 t d dividend params = IntDiv_u8 t d dividend params"

definition IntDivFloor_u16 ::
    "target \<Rightarrow> tag \<Rightarrow> 16 vec \<Rightarrow> (16 word, 32 word) DivisorParamsU \<Rightarrow> 16 vec" where
  "IntDivFloor_u16 t d dividend params = IntDiv_u16 t d dividend params"

definition IntDivFloor_u32 ::
    "target \<Rightarrow> tag \<Rightarrow> 32 vec \<Rightarrow> (32 word, 32 word) DivisorParamsU \<Rightarrow> 32 vec" where
  "IntDivFloor_u32 t d dividend params = IntDiv_u32 t d dividend params"

definition IntDivFloor_u64 ::
    "target \<Rightarrow> tag \<Rightarrow> 64 vec \<Rightarrow> (64 word, 64 word) DivisorParamsU \<Rightarrow> 64 vec" where
  "IntDivFloor_u64 t d dividend params = IntDiv_u64 t d dividend params"

section \<open>Convenience functions\<close>

text \<open>
  \<open>DivideByScalar\<close> and \<open>FloorDivideByScalar\<close> (lines 1053-1092).  A zero divisor
  aborts (\<open>None\<close>); the unsigned \<open>DivideByScalar\<close> shifts at once when the divisor is
  a power of two and counts the trailing zeros with the 64-bit helper for 64-bit
  lanes, with the 32-bit helper otherwise.
\<close>

definition DivideByScalar_u8 ::
    "target \<Rightarrow> tag \<Rightarrow> 8 vec \<Rightarrow> 8 word \<Rightarrow> 8 vec option" where
  "DivideByScalar_u8 t d dividend dv =
     (if dv = 0 then None
      else if IsPow2 dv then
        let ctz = CountTrailingZeros32 (ucast dv) in Some (ShiftRightUniform t Unsigned d dividend ctz)
      else
        case ComputeDivisorParams_u8 dv of
          None \<Rightarrow> None
        | Some params \<Rightarrow> Some (IntDiv_u8 t d dividend params))"

definition FloorDivideByScalar_u8 ::
    "target \<Rightarrow> tag \<Rightarrow> 8 vec \<Rightarrow> 8 word \<Rightarrow> 8 vec option" where
  "FloorDivideByScalar_u8 t d dividend dv = DivideByScalar_u8 t d dividend dv"

definition DivideByScalar_u16 ::
    "target \<Rightarrow> tag \<Rightarrow> 16 vec \<Rightarrow> 16 word \<Rightarrow> 16 vec option" where
  "DivideByScalar_u16 t d dividend dv =
     (if dv = 0 then None
      else if IsPow2 dv then
        let ctz = CountTrailingZeros32 (ucast dv) in Some (ShiftRightUniform t Unsigned d dividend ctz)
      else
        case ComputeDivisorParams_u16 dv of
          None \<Rightarrow> None
        | Some params \<Rightarrow> Some (IntDiv_u16 t d dividend params))"

definition FloorDivideByScalar_u16 ::
    "target \<Rightarrow> tag \<Rightarrow> 16 vec \<Rightarrow> 16 word \<Rightarrow> 16 vec option" where
  "FloorDivideByScalar_u16 t d dividend dv = DivideByScalar_u16 t d dividend dv"

definition DivideByScalar_u32 ::
    "target \<Rightarrow> tag \<Rightarrow> 32 vec \<Rightarrow> 32 word \<Rightarrow> 32 vec option" where
  "DivideByScalar_u32 t d dividend dv =
     (if dv = 0 then None
      else if IsPow2 dv then
        let ctz = CountTrailingZeros32 dv in Some (ShiftRightUniform t Unsigned d dividend ctz)
      else
        case ComputeDivisorParams_u32 dv of
          None \<Rightarrow> None
        | Some params \<Rightarrow> Some (IntDiv_u32 t d dividend params))"

definition FloorDivideByScalar_u32 ::
    "target \<Rightarrow> tag \<Rightarrow> 32 vec \<Rightarrow> 32 word \<Rightarrow> 32 vec option" where
  "FloorDivideByScalar_u32 t d dividend dv = DivideByScalar_u32 t d dividend dv"

definition DivideByScalar_u64 ::
    "wide_div \<Rightarrow> target \<Rightarrow> tag \<Rightarrow> 64 vec \<Rightarrow> 64 word \<Rightarrow> 64 vec option" where
  "DivideByScalar_u64 w t d dividend dv =
     (if dv = 0 then None
      else if IsPow2 dv then
        let ctz = CountTrailingZeros64 dv in Some (ShiftRightUniform t Unsigned d dividend ctz)
      else
        case ComputeDivisorParams_u64 w dv of
          None \<Rightarrow> None
        | Some params \<Rightarrow> Some (IntDiv_u64 t d dividend params))"

definition FloorDivideByScalar_u64 ::
    "wide_div \<Rightarrow> target \<Rightarrow> tag \<Rightarrow> 64 vec \<Rightarrow> 64 word \<Rightarrow> 64 vec option" where
  "FloorDivideByScalar_u64 w t d dividend dv = DivideByScalar_u64 w t d dividend dv"

definition DivideByScalar_s8 ::
    "target \<Rightarrow> tag \<Rightarrow> 8 vec \<Rightarrow> 8 word \<Rightarrow> 8 vec option" where
  "DivideByScalar_s8 t d dividend dv =
     (if dv = 0 then None
      else
        case ComputeDivisorParams_s8 dv of
          None \<Rightarrow> None
        | Some params \<Rightarrow> Some (IntDiv_s8 t d dividend params))"

definition FloorDivideByScalar_s8 ::
    "target \<Rightarrow> tag \<Rightarrow> 8 vec \<Rightarrow> 8 word \<Rightarrow> 8 vec option" where
  "FloorDivideByScalar_s8 t d dividend dv =
     (if dv = 0 then None
      else
        case ComputeDivisorParams_s8 dv of
          None \<Rightarrow> None
        | Some params \<Rightarrow> Some (IntDivFloor_s8 t d dividend params))"

definition DivideByScalar_s16 ::
    "target \<Rightarrow> tag \<Rightarrow> 16 vec \<Rightarrow> 16 word \<Rightarrow> 16 vec option" where
  "DivideByScalar_s16 t d dividend dv =
     (if dv = 0 then None
      else
        case ComputeDivisorParams_s16 dv of
          None \<Rightarrow> None
        | Some params \<Rightarrow> Some (IntDiv_s16 t d dividend params))"

definition FloorDivideByScalar_s16 ::
    "target \<Rightarrow> tag \<Rightarrow> 16 vec \<Rightarrow> 16 word \<Rightarrow> 16 vec option" where
  "FloorDivideByScalar_s16 t d dividend dv =
     (if dv = 0 then None
      else
        case ComputeDivisorParams_s16 dv of
          None \<Rightarrow> None
        | Some params \<Rightarrow> Some (IntDivFloor_s16 t d dividend params))"

definition DivideByScalar_s32 ::
    "target \<Rightarrow> tag \<Rightarrow> 32 vec \<Rightarrow> 32 word \<Rightarrow> 32 vec option" where
  "DivideByScalar_s32 t d dividend dv =
     (if dv = 0 then None
      else
        case ComputeDivisorParams_s32 dv of
          None \<Rightarrow> None
        | Some params \<Rightarrow> Some (IntDiv_s32 t d dividend params))"

definition FloorDivideByScalar_s32 ::
    "target \<Rightarrow> tag \<Rightarrow> 32 vec \<Rightarrow> 32 word \<Rightarrow> 32 vec option" where
  "FloorDivideByScalar_s32 t d dividend dv =
     (if dv = 0 then None
      else
        case ComputeDivisorParams_s32 dv of
          None \<Rightarrow> None
        | Some params \<Rightarrow> Some (IntDivFloor_s32 t d dividend params))"

definition DivideByScalar_s64 ::
    "wide_div \<Rightarrow> target \<Rightarrow> tag \<Rightarrow> 64 vec \<Rightarrow> 64 word \<Rightarrow> 64 vec option" where
  "DivideByScalar_s64 w t d dividend dv =
     (if dv = 0 then None
      else
        case ComputeDivisorParams_s64 w dv of
          None \<Rightarrow> None
        | Some params \<Rightarrow> Some (IntDiv_s64 t d dividend params))"

definition FloorDivideByScalar_s64 ::
    "wide_div \<Rightarrow> target \<Rightarrow> tag \<Rightarrow> 64 vec \<Rightarrow> 64 word \<Rightarrow> 64 vec option" where
  "FloorDivideByScalar_s64 w t d dividend dv =
     (if dv = 0 then None
      else
        case ComputeDivisorParams_s64 w dv of
          None \<Rightarrow> None
        | Some params \<Rightarrow> Some (IntDivFloor_s64 t d dividend params))"

section \<open>Vectors as lists of lanes\<close>

text \<open>
  Facts about the lane-wise combination of two vectors when one of them is a broadcast
  value or is computed from the other.
\<close>

lemma map2_replicate_right:
  "length xs = n \<Longrightarrow> map2 f xs (replicate n c) = map (\<lambda>x. f x c) xs"
  by (induction xs arbitrary: n) auto

lemma map2_replicate_left:
  "length xs = n \<Longrightarrow> map2 f (replicate n c) xs = map (\<lambda>x. f c x) xs"
  by (induction xs arbitrary: n) auto

lemma map2_map_same_right:
  "map2 f xs (map g xs) = map (\<lambda>x. f x (g x)) xs"
  by (induction xs) auto

lemma map2_map_same_left:
  "map2 f (map g xs) xs = map (\<lambda>x. f (g x) x) xs"
  by (induction xs) auto

lemma map2_map_map_same:
  "map2 f (map g xs) (map h xs) = map (\<lambda>x. f (g x) (h x)) xs"
  by (induction xs) auto

section \<open>The uniform right shift\<close>

text \<open>
  Two immediate shifts in a row add their counts; the immediates that
  \<open>ShiftRightUniform\<close> selects from the bits of the count add up to the count.
\<close>

lemma shr_lane_shr_lane:
  "shr_lane sg a (shr_lane sg b x) = shr_lane sg (a + b) x"
  by (cases sg) (simp_all add: shr_lane_def)

lemma shr_lane_0: "shr_lane sg 0 x = x"
  by (cases sg) (simp_all add: shr_lane_def)

lemma ShiftRight_ShiftRight:
  "ShiftRight sg a (ShiftRight sg b v) = ShiftRight sg (a + b) v"
  by (simp add: ShiftRight_def shr_lane_shr_lane comp_def)

lemma ShiftRight_0: "ShiftRight sg 0 v = v"
  by (simp add: ShiftRight_def shr_lane_0 map_idI)

lemma int_and_pow2_small:
  fixes sh :: int
  assumes "0 \<le> sh" "sh < 2 ^ k"
  shows "sh AND 2 ^ k = 0"
proof -
  have "\<not> bit sh k"
    using assms by (metis bit_take_bit_iff less_irrefl take_bit_int_eq_self)
  then show ?thesis
    by (simp add: and_exp_eq_0_iff_not_bit)
qed

lemma int_bits6:
  fixes sh :: int
  assumes "0 \<le> sh" "sh < 64"
  shows "(if sh AND 1 \<noteq> 0 then 1 else 0) + (if sh AND 2 \<noteq> 0 then 2 else 0) +
     (if sh AND 4 \<noteq> 0 then 4 else 0) + (if sh AND 8 \<noteq> 0 then 8 else 0) +
     (if sh AND 16 \<noteq> 0 then 16 else 0) + (if sh AND 32 \<noteq> 0 then 32 else 0) = nat sh"
proof -
  have "sh \<in> {0, 1, 2, 3, 4, 5, 6, 7, 8, 9, 10, 11, 12, 13, 14, 15, 16, 17, 18, 19, 20, 21, 22, 23, 24, 25, 26, 27, 28, 29, 30, 31, 32, 33, 34, 35, 36, 37, 38, 39, 40, 41, 42, 43, 44, 45, 46, 47, 48, 49, 50, 51, 52, 53, 54, 55, 56, 57, 58, 59, 60, 61, 62, 63}"
    using assms unfolding insert_iff empty_iff by presburger
  then show ?thesis
    by (elim insertE emptyE) simp_all
qed

lemma ShiftRight_chain:
  fixes s :: int
  assumes "0 \<le> s" "s < 64"
  shows "(let v = (if s AND 32 \<noteq> 0 then ShiftRight sg 32 v else v);
              v = (if s AND 16 \<noteq> 0 then ShiftRight sg 16 v else v);
              v = (if s AND 8 \<noteq> 0 then ShiftRight sg 8 v else v);
              v = (if s AND 4 \<noteq> 0 then ShiftRight sg 4 v else v);
              v = (if s AND 2 \<noteq> 0 then ShiftRight sg 2 v else v);
              v = (if s AND 1 \<noteq> 0 then ShiftRight sg 1 v else v)
          in v) = ShiftRight sg (nat s) v"
proof -
  have sel: "(if c then ShiftRight sg k w else w) = ShiftRight sg (if c then k else 0) w"
    for c k and w :: "'a vec"
    by (simp add: ShiftRight_0)
  show ?thesis
    unfolding Let_def sel ShiftRight_ShiftRight
    by (simp only: int_bits6 [OF assms])
qed

lemma int_and_32_small: "0 \<le> s \<Longrightarrow> s < 32 \<Longrightarrow> s AND 32 = 0" for s :: int
  using int_and_pow2_small [of s 5] by simp

lemma int_and_16_small: "0 \<le> s \<Longrightarrow> s < 16 \<Longrightarrow> s AND 16 = 0" for s :: int
  using int_and_pow2_small [of s 4] by simp

lemma sint_count:
  fixes s :: int
  assumes len: "LENGTH('a::len) = 8 \<or> LENGTH('a) = 16 \<or> LENGTH('a) = 32 \<or> LENGTH('a) = 64"
    and "0 \<le> s" "s < int LENGTH('a)"
  shows "sint (word_of_int s :: 'a word) = s"
proof -
  have "s < 2 ^ (LENGTH('a) - 1)"
    using len assms(3) by auto
  moreover have "- (2 ^ (LENGTH('a) - 1)) \<le> s"
    using assms(2) by (smt (verit) zero_less_power)
  ultimately show ?thesis
    by (simp add: sint_sbintrunc' signed_take_bit_int_eq_self)
qed

lemma ShiftRightUniform_in_range:
  fixes v :: "'a::len vec" and s :: int
  assumes len: "LENGTH('a) = 8 \<or> LENGTH('a) = 16 \<or> LENGTH('a) = 32 \<or> LENGTH('a) = 64"
    and lv: "length v = Lanes d"
    and s: "0 < s" "s < int LENGTH('a)"
  shows "ShiftRightUniform t sg d v s = ShiftRight sg (nat s) v"
proof (cases "t = NEON \<or> t = AVX3 \<or> (t = AVX2 \<and> LENGTH('a) = 32)")
  case True
  have "sint (word_of_int s :: 'a word) = s"
    using len s by (intro sint_count) simp_all
  then have "ShiftRight_var sg v (Set_lanes d (word_of_int s)) = ShiftRight sg (nat s) v"
    using lv by (simp add: ShiftRight_var_def Set_lanes_def ShiftRight_def map2_replicate_right)
  with True s show ?thesis
    by (simp add: ShiftRightUniform_def)
next
  case False
  have s64: "0 \<le> s" "s < 64"
    using len s by auto
  have g32: "(LENGTH('a) = 64 \<and> s AND 32 \<noteq> 0) \<longleftrightarrow> s AND 32 \<noteq> 0"
    using len s int_and_32_small [of s] by auto
  have g16: "(32 \<le> LENGTH('a) \<and> s AND 16 \<noteq> 0) \<longleftrightarrow> s AND 16 \<noteq> 0"
    using len s int_and_16_small [of s] by auto
  have c: "\<not> s \<le> 0" "\<not> int LENGTH('a) \<le> s"
    using s by simp_all
  have "ShiftRightUniform t sg d v s =
      (let v = (if s AND 32 \<noteq> 0 then ShiftRight sg 32 v else v);
              v = (if s AND 16 \<noteq> 0 then ShiftRight sg 16 v else v);
              v = (if s AND 8 \<noteq> 0 then ShiftRight sg 8 v else v);
              v = (if s AND 4 \<noteq> 0 then ShiftRight sg 4 v else v);
              v = (if s AND 2 \<noteq> 0 then ShiftRight sg 2 v else v);
              v = (if s AND 1 \<noteq> 0 then ShiftRight sg 1 v else v)
          in v)"
    unfolding ShiftRightUniform_def Let_def
    by (simp only: c False if_False g32 g16 order.order_iff_strict [of "int LENGTH('a)" s]
        simp_thms)
  then show ?thesis
    by (simp only: ShiftRight_chain [OF s64])
qed

lemma ShiftRightUniform_eq:
  fixes v :: "'a::len vec"
  assumes len: "LENGTH('a) = 8 \<or> LENGTH('a) = 16 \<or> LENGTH('a) = 32 \<or> LENGTH('a) = 64"
    and lv: "length v = Lanes d"
  shows "ShiftRightUniform t sg d v sh =
     (if sh \<le> 0 then v
      else if int LENGTH('a) \<le> sh then ShiftRight sg (LENGTH('a) - 1) v
      else ShiftRight sg (nat sh) v)"
proof (cases "sh \<le> 0")
  case True
  then show ?thesis by (simp add: ShiftRightUniform_def)
next
  case pos: False
  show ?thesis
  proof (cases "int LENGTH('a) \<le> sh")
    case True
    have "ShiftRightUniform t sg d v sh = ShiftRightUniform t sg d v (int LENGTH('a) - 1)"
      using pos True len by (auto simp add: ShiftRightUniform_def Let_def)
    also have "\<dots> = ShiftRight sg (nat (int LENGTH('a) - 1)) v"
      using len lv by (intro ShiftRightUniform_in_range) auto
    also have "nat (int LENGTH('a) - 1) = LENGTH('a) - 1"
      by simp
    finally show ?thesis using pos True by simp
  next
    case False
    with pos len lv show ?thesis
      by (simp add: ShiftRightUniform_in_range)
  qed
qed

lemma ShiftRightUniform_0: "ShiftRightUniform t sg d v 0 = v"
  by (simp add: ShiftRightUniform_def)

lemma ShiftRightUniform_8:
  "length v = d \<Longrightarrow> ShiftRightUniform t sg d (v :: 8 vec) sh =
     (if sh \<le> 0 then v else if 8 \<le> sh then ShiftRight sg 7 v else ShiftRight sg (nat sh) v)"
  using ShiftRightUniform_eq [of v d t sg sh] by (simp add: Lanes_def)

lemma ShiftRightUniform_16:
  "length v = d \<Longrightarrow> ShiftRightUniform t sg d (v :: 16 vec) sh =
     (if sh \<le> 0 then v else if 16 \<le> sh then ShiftRight sg 15 v else ShiftRight sg (nat sh) v)"
  using ShiftRightUniform_eq [of v d t sg sh] by (simp add: Lanes_def)

lemma ShiftRightUniform_32:
  "length v = d \<Longrightarrow> ShiftRightUniform t sg d (v :: 32 vec) sh =
     (if sh \<le> 0 then v else if 32 \<le> sh then ShiftRight sg 31 v else ShiftRight sg (nat sh) v)"
  using ShiftRightUniform_eq [of v d t sg sh] by (simp add: Lanes_def)

lemma ShiftRightUniform_64:
  "length v = d \<Longrightarrow> ShiftRightUniform t sg d (v :: 64 vec) sh =
     (if sh \<le> 0 then v else if 64 \<le> sh then ShiftRight sg 63 v else ShiftRight sg (nat sh) v)"
  using ShiftRightUniform_eq [of v d t sg sh] by (simp add: Lanes_def)

section \<open>Evaluation of the helpers and of the lane operations\<close>

lemmas helper_defs = IsPow2_def LeadingZeroCount32_def LeadingZeroCount64_def
  CountTrailingZeros32_def CountTrailingZeros64_def ctz_loop.simps word_gt_0

lemmas lane_defs = Set_lanes_def Lanes_def Zero_def Add_def Sub_def Mul_def And_def Xor_def
  Neg_def ShiftRight_def shr_lane_def MulHigh_def mulhi_lane_def PromoteTo_def
  promote_lane_def DemoteTo_def demote_lane_def Ne_def Lt_def And_mask_def Xor_mask_def
  IfThenElse_def

section \<open>The wide-multiplier helper\<close>

text \<open>
  The three values that the test \<open>TestDivideHighBySanity\<close> checks come out of both
  branches of \<open>DivideHighBy\<close>, and the branch on \<open>unsigned __int128\<close> is the exact
  quotient for every non-zero divisor.
\<close>

lemma DivideHighBy_examples:
  "DivideHighBy w 1 3 = Some 0x5555555555555555"
  "DivideHighBy w 0x8000000000000000 0x8000000000000000 = Some 0"
  "DivideHighBy w 1 0xFFFFFFFFFFFFFFFF = Some 1"
  by (cases w; simp add: DivideHighBy_def DivideHighBy_portable_def DivideHighBy_int128_def
      helper_defs knuth_adjust.simps)+

lemma DivideHighBy_int128_exact:
  assumes "dv \<noteq> 0"
  shows "DivideHighBy NativeInt128 hi dv =
     Some (word_of_nat ((unat hi * 2 ^ 64) div unat dv))"
proof -
  have lt: "unat hi < 2 ^ 64" "unat dv < 2 ^ 64"
    using unsigned_less [of hi] unsigned_less [of dv] by simp_all
  have wide: "unat (ucast hi :: 128 word) = unat hi" "unat (ucast dv :: 128 word) = unat dv"
    using lt by (simp_all add: unsigned_ucast_eq take_bit_nat_eq_self)
  have "unat hi * 2 ^ 64 < 2 ^ 128"
    using lt(1) by simp
  then have tb: "take_bit 128 (unat hi * 2 ^ 64) = unat hi * 2 ^ 64"
    by (simp add: take_bit_nat_eq_self)
  have "unat (push_bit 64 (ucast hi :: 128 word))
      = take_bit LENGTH(128) (push_bit 64 (unat (ucast hi :: 128 word)))"
    by (rule unsigned_push_bit_eq)
  also have "\<dots> = take_bit 128 (unat hi * 2 ^ 64)"
    by (simp add: wide push_bit_eq_mult)
  finally have h: "unat (push_bit 64 (ucast hi :: 128 word)) = unat hi * 2 ^ 64"
    using tb by simp
  have "unat (push_bit 64 (ucast hi :: 128 word) div (ucast dv :: 128 word))
      = (unat hi * 2 ^ 64) div unat dv"
    by (simp only: unat_div h wide)
  then have "(ucast (push_bit 64 (ucast hi :: 128 word) div (ucast dv :: 128 word)) :: 64 word)
      = word_of_nat ((unat hi * 2 ^ 64) div unat dv)"
    by (metis of_nat_unat)
  with assms show ?thesis
    by (simp add: DivideHighBy_def DivideHighBy_int128_def)
qed

text \<open>
  Claim C8: \<open>DivideHighBy(high, divisor)\<close> returns
  \<open>((high * 2^64) / divisor) mod 2^64\<close> for every non-zero divisor.  The portable
  branch does not: for \<open>high = 1\<close> and \<open>divisor = 2^32 + 1\<close> the exact value is
  \<open>2^32 - 1\<close>, which the branch on \<open>unsigned __int128\<close> returns, and the portable
  branch returns 0.  Its second quotient digit is the estimate
  \<open>dividend_pairs / dh\<close>, here \<open>2^63 / 2^31 = 2^32\<close>, taken without the correction
  that the first digit gets, and cut to 32 bits.
\<close>

theorem DivideHighBy_portable_wrong:
  "DivideHighBy PortableKnuth 1 0x100000001 = Some 0
   \<and> DivideHighBy NativeInt128 1 0x100000001 = Some 0xFFFFFFFF
   \<and> (word_of_nat ((unat (1 :: 64 word) * 2 ^ 64) div unat (0x100000001 :: 64 word)) :: 64 word)
        = 0xFFFFFFFF"
  by (simp add: DivideHighBy_def DivideHighBy_portable_def DivideHighBy_int128_def helper_defs
      knuth_adjust.simps)

section \<open>Truncating quotients on narrow lanes\<close>

text \<open>
  Claim C1: for every unsigned width, \<open>IntDiv\<close> with the parameters of
  \<open>ComputeDivisorParams(d)\<close> gives \<open>a / d\<close> in every lane.  It fails on the 8-bit and
  the 16-bit lanes when the divisor is above half the range and not a power of two: with
  \<open>l = W\<close> the derivation sets \<open>two_l = 0\<close> and \<open>two_l - divisor\<close> wraps at 32 bits,
  not at \<open>W\<close> bits.  On every target, dividend 1 and divisor 129 give 1 in an 8-bit
  lane, and dividend 1 and divisor 32769 give 1 in a 16-bit lane; both quotients are 0.
\<close>

theorem IntDiv_unsigned_narrow_wrong:
  "map_option (IntDiv_u8 t 1 [1]) (ComputeDivisorParams_u8 129) = Some [1]
   \<and> (1 :: 8 word) div 129 = 0
   \<and> map_option (IntDiv_u16 t 1 [1]) (ComputeDivisorParams_u16 32769) = Some [1]
   \<and> (1 :: 16 word) div 32769 = 0"
  by (simp add: ComputeDivisorParams_u8_def ComputeDivisorParams_u16_def helper_defs
      IntDiv_u8_def IntDiv_u16_def ShiftRightUniform_8 ShiftRightUniform_16 lane_defs)

text \<open>
  Claim C2: for every signed width, \<open>IntDiv\<close> with the parameters of
  \<open>ComputeDivisorParams(d)\<close> gives the quotient truncated toward zero.  It fails on
  the 8-bit and the 16-bit lanes: the multiplier is kept as the full positive value
  \<open>m\<close> in the double-width field, and the main path still adds the dividend to the
  high half of the product, as it does for the 32-bit multiplier \<open>m - 2^32\<close>.  On
  every target 7 divided by 3 comes out as 5.
\<close>

theorem IntDiv_signed_narrow_wrong:
  "map_option (IntDiv_s8 t 1 [7]) (ComputeDivisorParams_s8 3) = Some [5]
   \<and> map_option (IntDiv_s16 t 1 [7]) (ComputeDivisorParams_s16 3) = Some [5]
   \<and> (7 :: int) sdiv 3 = 2"
  by (simp add: ComputeDivisorParams_s8_def ComputeDivisorParams_s16_def helper_defs
      IntDiv_s8_def IntDiv_s16_def ShiftRightUniform_8 ShiftRightUniform_16 lane_defs)

text \<open>
  Claim C3: for every signed width, \<open>IntDivFloor\<close> gives the floor of the rational
  \<open>a / d\<close>.  On the 8-bit and the 16-bit lanes it starts from the wrong truncating
  quotient of claim C2: on every target -7 floor-divided by 3 comes out as -6, and the
  floor is -3.
\<close>

theorem IntDivFloor_signed_narrow_wrong:
  "map_option (IntDivFloor_s8 t 1 [- 7]) (ComputeDivisorParams_s8 3) = Some [- 6]
   \<and> map_option (IntDivFloor_s16 t 1 [- 7]) (ComputeDivisorParams_s16 3) = Some [- 6]
   \<and> (- 7 :: int) div 3 = - 3"
  by (simp add: ComputeDivisorParams_s8_def ComputeDivisorParams_s16_def helper_defs
      IntDivFloor_s8_def IntDivFloor_s16_def IntDiv_s8_def IntDiv_s16_def
      ShiftRightUniform_8 ShiftRightUniform_16 lane_defs)

section \<open>The parameters of the divisors 1, -1 and the minimum value\<close>

lemma ComputeDivisorParams_u8_one:
  "ComputeDivisorParams_u8 1 =
     Some \<lparr> DivisorParamsU.multiplier = 1, shift1 = 0, shift2 = 0,
            DivisorParamsU.is_pow2 = True, DivisorParamsU.pow2_shift = 0,
            DivisorParamsU.divisor = 1 \<rparr>"
  by (simp add: ComputeDivisorParams_u8_def helper_defs)

lemma ComputeDivisorParams_u16_one:
  "ComputeDivisorParams_u16 1 =
     Some \<lparr> DivisorParamsU.multiplier = 1, shift1 = 0, shift2 = 0,
            DivisorParamsU.is_pow2 = True, DivisorParamsU.pow2_shift = 0,
            DivisorParamsU.divisor = 1 \<rparr>"
  by (simp add: ComputeDivisorParams_u16_def helper_defs)

lemma ComputeDivisorParams_u32_one:
  "ComputeDivisorParams_u32 1 =
     Some \<lparr> DivisorParamsU.multiplier = 1, shift1 = 0, shift2 = 0,
            DivisorParamsU.is_pow2 = True, DivisorParamsU.pow2_shift = 0,
            DivisorParamsU.divisor = 1 \<rparr>"
  by (simp add: ComputeDivisorParams_u32_def helper_defs)

lemma ComputeDivisorParams_u64_one:
  "ComputeDivisorParams_u64 w 1 =
     Some \<lparr> DivisorParamsU.multiplier = 1, shift1 = 0, shift2 = 0,
            DivisorParamsU.is_pow2 = True, DivisorParamsU.pow2_shift = 0,
            DivisorParamsU.divisor = 1 \<rparr>"
  by (simp add: ComputeDivisorParams_u64_def helper_defs)

lemma ComputeDivisorParams_s8_one:
  "ComputeDivisorParams_s8 1 =
     Some \<lparr> multiplier = 1, shift = 0, divisor = 1, is_pow2 = True, pow2_shift = 0 \<rparr>"
  by (simp add: ComputeDivisorParams_s8_def helper_defs)

lemma ComputeDivisorParams_s8_minus_one:
  "ComputeDivisorParams_s8 (- 1) =
     Some \<lparr> multiplier = 1, shift = 0, divisor = - 1, is_pow2 = True, pow2_shift = 0 \<rparr>"
  by (simp add: ComputeDivisorParams_s8_def helper_defs)

lemma ComputeDivisorParams_s8_min:
  "ComputeDivisorParams_s8 0x80 =
     Some \<lparr> multiplier = 1, shift = 0, divisor = 0x80, is_pow2 = True,
            pow2_shift = 7 \<rparr>"
  by (simp add: ComputeDivisorParams_s8_def helper_defs)

lemma ComputeDivisorParams_s16_one:
  "ComputeDivisorParams_s16 1 =
     Some \<lparr> multiplier = 1, shift = 0, divisor = 1, is_pow2 = True, pow2_shift = 0 \<rparr>"
  by (simp add: ComputeDivisorParams_s16_def helper_defs)

lemma ComputeDivisorParams_s16_minus_one:
  "ComputeDivisorParams_s16 (- 1) =
     Some \<lparr> multiplier = 1, shift = 0, divisor = - 1, is_pow2 = True, pow2_shift = 0 \<rparr>"
  by (simp add: ComputeDivisorParams_s16_def helper_defs)

lemma ComputeDivisorParams_s16_min:
  "ComputeDivisorParams_s16 0x8000 =
     Some \<lparr> multiplier = 1, shift = 0, divisor = 0x8000, is_pow2 = True,
            pow2_shift = 15 \<rparr>"
  by (simp add: ComputeDivisorParams_s16_def helper_defs)

lemma ComputeDivisorParams_s32_one:
  "ComputeDivisorParams_s32 1 =
     Some \<lparr> multiplier = 1, shift = 0, divisor = 1, is_pow2 = True, pow2_shift = 0 \<rparr>"
  by (simp add: ComputeDivisorParams_s32_def helper_defs)

lemma ComputeDivisorParams_s32_minus_one:
  "ComputeDivisorParams_s32 (- 1) =
     Some \<lparr> multiplier = 1, shift = 0, divisor = - 1, is_pow2 = True, pow2_shift = 0 \<rparr>"
  by (simp add: ComputeDivisorParams_s32_def helper_defs)

lemma ComputeDivisorParams_s32_min:
  "ComputeDivisorParams_s32 0x80000000 =
     Some \<lparr> multiplier = 1, shift = 0, divisor = 0x80000000, is_pow2 = True,
            pow2_shift = 31 \<rparr>"
  by (simp add: ComputeDivisorParams_s32_def helper_defs)

lemma ComputeDivisorParams_s64_one:
  "ComputeDivisorParams_s64 w 1 =
     Some \<lparr> multiplier = 1, shift = 0, divisor = 1, is_pow2 = True, pow2_shift = 0 \<rparr>"
  by (simp add: ComputeDivisorParams_s64_def helper_defs)

lemma ComputeDivisorParams_s64_minus_one:
  "ComputeDivisorParams_s64 w (- 1) =
     Some \<lparr> multiplier = 1, shift = 0, divisor = - 1, is_pow2 = True, pow2_shift = 0 \<rparr>"
  by (simp add: ComputeDivisorParams_s64_def helper_defs)

lemma ComputeDivisorParams_s64_min:
  "ComputeDivisorParams_s64 w 0x8000000000000000 =
     Some \<lparr> multiplier = 1, shift = 0, divisor = 0x8000000000000000, is_pow2 = True,
            pow2_shift = 63 \<rparr>"
  by (simp add: ComputeDivisorParams_s64_def helper_defs)

text \<open>
  Claim C5, as stated: when the divisor is the minimum value of the signed type,
  \<open>ComputeDivisorParams\<close> returns the hardcoded multiplier (top bit plus one, \<open>0x81\<close>
  at width 8) with shift \<open>W - 2\<close>.  At width 8 it returns neither: the magnitude
  \<open>0x80\<close> passes \<open>IsPow2\<close>, and that branch returns before the test for the minimum
  value is reached.
\<close>

theorem ComputeDivisorParams_s8_min_not_hardcoded:
  "map_option DivisorParamsS.multiplier (ComputeDivisorParams_s8 0x80) \<noteq> Some 0x81
   \<and> map_option shift (ComputeDivisorParams_s8 0x80) \<noteq> Some 6"
  by (simp add: ComputeDivisorParams_s8_min)

text \<open>
  Claim C5, amended: when the divisor is the minimum value of the signed type of width
  W, \<open>ComputeDivisorParams\<close> returns the power-of-two parameters: \<open>is_pow2\<close> set,
  \<open>pow2_shift = W - 1\<close>, multiplier 1, shift 0 and the divisor itself.
\<close>

theorem ComputeDivisorParams_min_is_pow2:
  "ComputeDivisorParams_s8 0x80 =
     Some \<lparr> multiplier = 1, shift = 0, divisor = 0x80, is_pow2 = True, pow2_shift = 7 \<rparr>
   \<and> ComputeDivisorParams_s16 0x8000 =
     Some \<lparr> multiplier = 1, shift = 0, divisor = 0x8000, is_pow2 = True, pow2_shift = 15 \<rparr>
   \<and> ComputeDivisorParams_s32 0x80000000 =
     Some \<lparr> multiplier = 1, shift = 0, divisor = 0x80000000, is_pow2 = True,
            pow2_shift = 31 \<rparr>
   \<and> ComputeDivisorParams_s64 w 0x8000000000000000 =
     Some \<lparr> multiplier = 1, shift = 0, divisor = 0x8000000000000000, is_pow2 = True,
            pow2_shift = 63 \<rparr>"
  by (simp only: ComputeDivisorParams_s8_min ComputeDivisorParams_s16_min
      ComputeDivisorParams_s32_min ComputeDivisorParams_s64_min simp_thms)

section \<open>Division by the minimum value\<close>

text \<open>
  The power-of-two path that the parameters of the minimum value select divides by it:
  the quotient is 1 in the lanes that hold the minimum value and 0 in all others, on
  every target.  The lane computation is \<open>-((a + bias) >> (W - 1))\<close> with the bias
  \<open>(a >> (W - 1)) & (2^(W-1) - 1)\<close>.
\<close>

lemma signed_drop_bit_top:
  fixes x :: "'a::len word"
  shows "signed_drop_bit (LENGTH('a) - 1) x = (if sint x < 0 then - 1 else 0)"
proof (rule signed_word_eqI)
  have r: "- (2 ^ (LENGTH('a) - 1)) \<le> sint x" "sint x < 2 ^ (LENGTH('a) - 1)"
    using sint_ge [of x] sint_lt [of x] by simp_all
  have "sint x div 2 ^ (LENGTH('a) - 1) = (if sint x < 0 then - 1 else 0)"
  proof (cases "sint x < 0")
    case True
    with r(1) have "(sint x + 2 ^ (LENGTH('a) - 1)) div 2 ^ (LENGTH('a) - 1) = 0"
      by (intro div_pos_pos_trivial) simp_all
    moreover have "(sint x + 2 ^ (LENGTH('a) - 1)) div 2 ^ (LENGTH('a) - 1)
        = sint x div 2 ^ (LENGTH('a) - 1) + 1"
      by (rule div_add_self2) simp
    ultimately have "sint x div 2 ^ (LENGTH('a) - 1) = - 1"
      by linarith
    with True show ?thesis by simp
  next
    case False
    with r(2) show ?thesis by (simp add: div_pos_pos_trivial)
  qed
  then show "sint (signed_drop_bit (LENGTH('a) - 1) x) = sint (if sint x < 0 then - 1 else 0 :: 'a word)"
    by (simp add: sint_signed_drop_bit_eq drop_bit_eq_div)
qed

lemma signed_drop_bit_top_Suc:
  fixes x :: "'a::len word"
  shows "signed_drop_bit (LENGTH('a) - Suc 0) x = (if sint x < 0 then - 1 else 0)"
  using signed_drop_bit_top [of x] by simp

lemma pow2_min_lane:
  fixes a mask :: "'a::len word"
  assumes m: "sint mask = 2 ^ (LENGTH('a) - 1) - 1"
  shows "- signed_drop_bit (LENGTH('a) - 1)
           (a + (signed_drop_bit (LENGTH('a) - 1) a AND mask))
         = (if sint a = - (2 ^ (LENGTH('a) - 1)) then 1 else 0)"
proof (cases "sint a < 0")
  case True
  have r: "- (2 ^ (LENGTH('a) - 1)) \<le> sint a"
    using sint_ge [of a] by simp
  have "sint (a + mask) = signed_take_bit (LENGTH('a) - 1) (sint a + sint mask)"
    by (simp add: sint_word_ariths)
  also have "\<dots> = sint a + sint mask"
    using True r m by (intro signed_take_bit_int_eq_self) simp_all
  finally have s: "sint (a + mask) = sint a + 2 ^ (LENGTH('a) - 1) - 1"
    using m by simp
  have "signed_drop_bit (LENGTH('a) - 1) (a + mask)
      = (if sint a = - (2 ^ (LENGTH('a) - 1)) then - 1 else 0)"
    using r by (simp add: signed_drop_bit_top_Suc s)
  with True show ?thesis
    by (simp add: signed_drop_bit_top_Suc)
next
  case False
  then have "sint a \<noteq> - (2 ^ (LENGTH('a) - 1))"
    by (smt (verit) zero_less_power)
  with False show ?thesis
    by (simp add: signed_drop_bit_top_Suc)
qed

lemma sint_eq_min_8: "sint a = - 128 \<longleftrightarrow> a = 0x80" for a :: "8 word"
proof
  assume "sint a = - 128"
  then have "sint a = sint (0x80 :: 8 word)"
    by simp
  then show "a = 0x80"
    by (rule signed_word_eqI)
qed simp

lemma IntDiv_s8_by_min:
  assumes "length v = Lanes d"
  shows "map_option (IntDiv_s8 t d v) (ComputeDivisorParams_s8 0x80)
     = Some (map (\<lambda>a. if a = 0x80 then 1 else 0) v)"
proof -
  have lane: "- signed_drop_bit 7 (a + (signed_drop_bit 7 a AND 0x7F))
      = (if a = 0x80 then 1 else 0)" for a :: "8 word"
    using pow2_min_lane [of "0x7F :: 8 word" a] by (simp add: sint_eq_min_8)
  have "Add v (And (ShiftRight Signed 7 v) (Set_lanes d 0x7F))
      = map (\<lambda>a. a + (signed_drop_bit 7 a AND 0x7F)) v"
    using assms
    by (simp add: Add_def And_def ShiftRight_def shr_lane_def Set_lanes_def
        map2_replicate_right map2_map_same_right comp_def)
  then show ?thesis
    using assms
    by (simp add: ComputeDivisorParams_s8_min IntDiv_s8_def ShiftRightUniform_8 Lanes_def
        ShiftRight_def shr_lane_def Neg_def comp_def lane)
qed

lemma sint_eq_min_16: "sint a = - 32768 \<longleftrightarrow> a = 0x8000" for a :: "16 word"
proof
  assume "sint a = - 32768"
  then have "sint a = sint (0x8000 :: 16 word)"
    by simp
  then show "a = 0x8000"
    by (rule signed_word_eqI)
qed simp

lemma IntDiv_s16_by_min:
  assumes "length v = Lanes d"
  shows "map_option (IntDiv_s16 t d v) (ComputeDivisorParams_s16 0x8000)
     = Some (map (\<lambda>a. if a = 0x8000 then 1 else 0) v)"
proof -
  have lane: "- signed_drop_bit 15 (a + (signed_drop_bit 15 a AND 0x7FFF))
      = (if a = 0x8000 then 1 else 0)" for a :: "16 word"
    using pow2_min_lane [of "0x7FFF :: 16 word" a] by (simp add: sint_eq_min_16)
  have "Add v (And (ShiftRight Signed 15 v) (Set_lanes d 0x7FFF))
      = map (\<lambda>a. a + (signed_drop_bit 15 a AND 0x7FFF)) v"
    using assms
    by (simp add: Add_def And_def ShiftRight_def shr_lane_def Set_lanes_def
        map2_replicate_right map2_map_same_right comp_def)
  then show ?thesis
    using assms
    by (simp add: ComputeDivisorParams_s16_min IntDiv_s16_def ShiftRightUniform_16 Lanes_def
        ShiftRight_def shr_lane_def Neg_def comp_def lane)
qed

lemma sint_eq_min_32: "sint a = - 2147483648 \<longleftrightarrow> a = 0x80000000" for a :: "32 word"
proof
  assume "sint a = - 2147483648"
  then have "sint a = sint (0x80000000 :: 32 word)"
    by simp
  then show "a = 0x80000000"
    by (rule signed_word_eqI)
qed simp

lemma IntDiv_s32_by_min:
  assumes "length v = Lanes d"
  shows "map_option (IntDiv_s32 t d v) (ComputeDivisorParams_s32 0x80000000)
     = Some (map (\<lambda>a. if a = 0x80000000 then 1 else 0) v)"
proof -
  have lane: "- signed_drop_bit 31 (a + (signed_drop_bit 31 a AND 0x7FFFFFFF))
      = (if a = 0x80000000 then 1 else 0)" for a :: "32 word"
    using pow2_min_lane [of "0x7FFFFFFF :: 32 word" a] by (simp add: sint_eq_min_32)
  have "Add v (And (ShiftRight Signed 31 v) (Set_lanes d 0x7FFFFFFF))
      = map (\<lambda>a. a + (signed_drop_bit 31 a AND 0x7FFFFFFF)) v"
    using assms
    by (simp add: Add_def And_def ShiftRight_def shr_lane_def Set_lanes_def
        map2_replicate_right map2_map_same_right comp_def)
  then show ?thesis
    using assms
    by (simp add: ComputeDivisorParams_s32_min IntDiv_s32_def ShiftRightUniform_32 Lanes_def
        ShiftRight_def shr_lane_def Neg_def comp_def lane)
qed

lemma sint_eq_min_64: "sint a = - 9223372036854775808 \<longleftrightarrow> a = 0x8000000000000000" for a :: "64 word"
proof
  assume "sint a = - 9223372036854775808"
  then have "sint a = sint (0x8000000000000000 :: 64 word)"
    by simp
  then show "a = 0x8000000000000000"
    by (rule signed_word_eqI)
qed simp

lemma IntDiv_s64_by_min:
  assumes "length v = Lanes d"
  shows "map_option (IntDiv_s64 t d v) (ComputeDivisorParams_s64 w 0x8000000000000000)
     = Some (map (\<lambda>a. if a = 0x8000000000000000 then 1 else 0) v)"
proof -
  have lane: "- signed_drop_bit 63 (a + (signed_drop_bit 63 a AND 0x7FFFFFFFFFFFFFFF))
      = (if a = 0x8000000000000000 then 1 else 0)" for a :: "64 word"
    using pow2_min_lane [of "0x7FFFFFFFFFFFFFFF :: 64 word" a] by (simp add: sint_eq_min_64)
  have "Add v (And (ShiftRight Signed 63 v) (Set_lanes d 0x7FFFFFFFFFFFFFFF))
      = map (\<lambda>a. a + (signed_drop_bit 63 a AND 0x7FFFFFFFFFFFFFFF)) v"
    using assms
    by (simp add: Add_def And_def ShiftRight_def shr_lane_def Set_lanes_def
        map2_replicate_right map2_map_same_right comp_def)
  then show ?thesis
    using assms
    by (simp add: ComputeDivisorParams_s64_min IntDiv_s64_def ShiftRightUniform_64 Lanes_def
        ShiftRight_def shr_lane_def Neg_def comp_def lane)
qed

section \<open>Division by 1 and by -1\<close>

text \<open>
  With \<open>pow2_shift = 0\<close> the bias of the signed power-of-two path is zero in every
  lane.
\<close>

lemma pow2_bias_zero:
  "length v = Lanes d \<Longrightarrow> Add v (And (ShiftRight Signed k v) (Set_lanes d 0)) = v"
  by (simp add: Add_def And_def ShiftRight_def Set_lanes_def map2_replicate_right
      map2_map_same_right map_idI)

lemma sint_uminus:
  fixes a :: "'a::len word"
  assumes "a \<noteq> word_of_int (- (2 ^ (LENGTH('a) - 1)))"
  shows "sint (- a) = - sint a"
proof -
  have "sint a \<noteq> - (2 ^ (LENGTH('a) - 1))"
  proof
    assume "sint a = - (2 ^ (LENGTH('a) - 1))"
    then have "word_of_int (sint a) = (word_of_int (- (2 ^ (LENGTH('a) - 1))) :: 'a word)"
      by simp
    with assms show False by simp
  qed
  with sint_ge [of a] sint_lt [of a]
  have "- (2 ^ (LENGTH('a) - 1)) \<le> - sint a" "- sint a < 2 ^ (LENGTH('a) - 1)"
    by simp_all
  then have "signed_take_bit (LENGTH('a) - 1) (- sint a) = - sint a"
    by (simp add: signed_take_bit_int_eq_self)
  moreover have "- a = word_of_int (- sint a)"
    by simp
  ultimately show ?thesis
    by (metis sint_sbintrunc')
qed

lemma Neg_sint:
  fixes v :: "'a::len vec"
  assumes "word_of_int (- (2 ^ (LENGTH('a) - 1))) \<notin> set v"
  shows "map sint (Neg v) = map (\<lambda>a. - sint a) v"
  using assms by (induction v) (auto simp: Neg_def sint_uminus)

lemma IntDiv_u8_one:
  "map_option (IntDiv_u8 t d v) (ComputeDivisorParams_u8 1) = Some v"
  by (simp add: ComputeDivisorParams_u8_one IntDiv_u8_def ShiftRightUniform_0)

lemma IntDiv_s8_one:
  "length v = Lanes d \<Longrightarrow>
     map_option (IntDiv_s8 t d v) (ComputeDivisorParams_s8 1) = Some v"
  by (simp add: ComputeDivisorParams_s8_one IntDiv_s8_def ShiftRightUniform_0
      pow2_bias_zero)

lemma IntDiv_s8_minus_one:
  "length v = Lanes d \<Longrightarrow>
     map_option (IntDiv_s8 t d v) (ComputeDivisorParams_s8 (- 1)) = Some (Neg v)"
  by (simp add: ComputeDivisorParams_s8_minus_one IntDiv_s8_def ShiftRightUniform_0
      pow2_bias_zero)

lemma IntDiv_s8_minus_one_sint:
  assumes "length v = Lanes d" and "0x80 \<notin> set v"
  shows "map_option (map sint \<circ> IntDiv_s8 t d v) (ComputeDivisorParams_s8 (- 1))
     = Some (map (\<lambda>a. - sint a) v)"
proof -
  have e: "(- 0x80 :: 8 word) = 0x80"
    by simp
  have "map sint (Neg v) = map (\<lambda>a. - sint a) v"
    using assms(2) Neg_sint [of v] by (simp add: e)
  with IntDiv_s8_minus_one [OF assms(1), of t] show ?thesis
    by (simp add: ComputeDivisorParams_s8_minus_one)
qed

lemma IntDiv_u16_one:
  "map_option (IntDiv_u16 t d v) (ComputeDivisorParams_u16 1) = Some v"
  by (simp add: ComputeDivisorParams_u16_one IntDiv_u16_def ShiftRightUniform_0)

lemma IntDiv_s16_one:
  "length v = Lanes d \<Longrightarrow>
     map_option (IntDiv_s16 t d v) (ComputeDivisorParams_s16 1) = Some v"
  by (simp add: ComputeDivisorParams_s16_one IntDiv_s16_def ShiftRightUniform_0
      pow2_bias_zero)

lemma IntDiv_s16_minus_one:
  "length v = Lanes d \<Longrightarrow>
     map_option (IntDiv_s16 t d v) (ComputeDivisorParams_s16 (- 1)) = Some (Neg v)"
  by (simp add: ComputeDivisorParams_s16_minus_one IntDiv_s16_def ShiftRightUniform_0
      pow2_bias_zero)

lemma IntDiv_s16_minus_one_sint:
  assumes "length v = Lanes d" and "0x8000 \<notin> set v"
  shows "map_option (map sint \<circ> IntDiv_s16 t d v) (ComputeDivisorParams_s16 (- 1))
     = Some (map (\<lambda>a. - sint a) v)"
proof -
  have e: "(- 0x8000 :: 16 word) = 0x8000"
    by simp
  have "map sint (Neg v) = map (\<lambda>a. - sint a) v"
    using assms(2) Neg_sint [of v] by (simp add: e)
  with IntDiv_s16_minus_one [OF assms(1), of t] show ?thesis
    by (simp add: ComputeDivisorParams_s16_minus_one)
qed

lemma IntDiv_u32_one:
  "map_option (IntDiv_u32 t d v) (ComputeDivisorParams_u32 1) = Some v"
  by (simp add: ComputeDivisorParams_u32_one IntDiv_u32_def ShiftRightUniform_0)

lemma IntDiv_s32_one:
  "length v = Lanes d \<Longrightarrow>
     map_option (IntDiv_s32 t d v) (ComputeDivisorParams_s32 1) = Some v"
  by (simp add: ComputeDivisorParams_s32_one IntDiv_s32_def ShiftRightUniform_0
      pow2_bias_zero)

lemma IntDiv_s32_minus_one:
  "length v = Lanes d \<Longrightarrow>
     map_option (IntDiv_s32 t d v) (ComputeDivisorParams_s32 (- 1)) = Some (Neg v)"
  by (simp add: ComputeDivisorParams_s32_minus_one IntDiv_s32_def ShiftRightUniform_0
      pow2_bias_zero)

lemma IntDiv_s32_minus_one_sint:
  assumes "length v = Lanes d" and "0x80000000 \<notin> set v"
  shows "map_option (map sint \<circ> IntDiv_s32 t d v) (ComputeDivisorParams_s32 (- 1))
     = Some (map (\<lambda>a. - sint a) v)"
proof -
  have e: "(- 0x80000000 :: 32 word) = 0x80000000"
    by simp
  have "map sint (Neg v) = map (\<lambda>a. - sint a) v"
    using assms(2) Neg_sint [of v] by (simp add: e)
  with IntDiv_s32_minus_one [OF assms(1), of t] show ?thesis
    by (simp add: ComputeDivisorParams_s32_minus_one)
qed

lemma IntDiv_u64_one:
  "map_option (IntDiv_u64 t d v) (ComputeDivisorParams_u64 w 1) = Some v"
  by (simp add: ComputeDivisorParams_u64_one IntDiv_u64_def ShiftRightUniform_0)

lemma IntDiv_s64_one:
  "length v = Lanes d \<Longrightarrow>
     map_option (IntDiv_s64 t d v) (ComputeDivisorParams_s64 w 1) = Some v"
  by (simp add: ComputeDivisorParams_s64_one IntDiv_s64_def ShiftRightUniform_0
      pow2_bias_zero)

lemma IntDiv_s64_minus_one:
  "length v = Lanes d \<Longrightarrow>
     map_option (IntDiv_s64 t d v) (ComputeDivisorParams_s64 w (- 1)) = Some (Neg v)"
  by (simp add: ComputeDivisorParams_s64_minus_one IntDiv_s64_def ShiftRightUniform_0
      pow2_bias_zero)

lemma IntDiv_s64_minus_one_sint:
  assumes "length v = Lanes d" and "0x8000000000000000 \<notin> set v"
  shows "map_option (map sint \<circ> IntDiv_s64 t d v) (ComputeDivisorParams_s64 w (- 1))
     = Some (map (\<lambda>a. - sint a) v)"
proof -
  have e: "(- 0x8000000000000000 :: 64 word) = 0x8000000000000000"
    by simp
  have "map sint (Neg v) = map (\<lambda>a. - sint a) v"
    using assms(2) Neg_sint [of v] by (simp add: e)
  with IntDiv_s64_minus_one [OF assms(1), of t w] show ?thesis
    by (simp add: ComputeDivisorParams_s64_minus_one)
qed

text \<open>
  Claim C7: with divisor 1, \<open>IntDiv\<close> after \<open>ComputeDivisorParams\<close> returns the
  dividend vector unchanged, for the four unsigned and the four signed lane types; with
  divisor -1 on signed lanes, every lane other than the minimum value is negated (read
  as an integer, the result is \<open>-a\<close>).  The vectors have the number of lanes of the
  descriptor.
\<close>

theorem IntDiv_one_and_minus_one:
  assumes "length v8 = Lanes d" "length v16 = Lanes d" "length v32 = Lanes d"
    "length v64 = Lanes d"
  shows "map_option (IntDiv_u8 t d v8) (ComputeDivisorParams_u8 1) = Some v8 \<and>
   map_option (IntDiv_u16 t d v16) (ComputeDivisorParams_u16 1) = Some v16 \<and>
   map_option (IntDiv_u32 t d v32) (ComputeDivisorParams_u32 1) = Some v32 \<and>
   map_option (IntDiv_u64 t d v64) (ComputeDivisorParams_u64 w 1) = Some v64 \<and>
   map_option (IntDiv_s8 t d v8) (ComputeDivisorParams_s8 1) = Some v8 \<and>
   map_option (IntDiv_s16 t d v16) (ComputeDivisorParams_s16 1) = Some v16 \<and>
   map_option (IntDiv_s32 t d v32) (ComputeDivisorParams_s32 1) = Some v32 \<and>
   map_option (IntDiv_s64 t d v64) (ComputeDivisorParams_s64 w 1) = Some v64 \<and>
   (0x80 \<notin> set v8 \<longrightarrow>
      map_option (map sint \<circ> IntDiv_s8 t d v8) (ComputeDivisorParams_s8 (- 1))
        = Some (map (\<lambda>a. - sint a) v8)) \<and>
   (0x8000 \<notin> set v16 \<longrightarrow>
      map_option (map sint \<circ> IntDiv_s16 t d v16) (ComputeDivisorParams_s16 (- 1))
        = Some (map (\<lambda>a. - sint a) v16)) \<and>
   (0x80000000 \<notin> set v32 \<longrightarrow>
      map_option (map sint \<circ> IntDiv_s32 t d v32) (ComputeDivisorParams_s32 (- 1))
        = Some (map (\<lambda>a. - sint a) v32)) \<and>
   (0x8000000000000000 \<notin> set v64 \<longrightarrow>
      map_option (map sint \<circ> IntDiv_s64 t d v64) (ComputeDivisorParams_s64 w (- 1))
        = Some (map (\<lambda>a. - sint a) v64))"
  using assms IntDiv_u8_one [of t d v8] IntDiv_u16_one [of t d v16] IntDiv_u32_one [of t d v32]
    IntDiv_u64_one [of t d v64 w] IntDiv_s8_one [of v8 d t] IntDiv_s16_one [of v16 d t]
    IntDiv_s32_one [of v32 d t] IntDiv_s64_one [of v64 d t w]
    IntDiv_s8_minus_one_sint [of v8 d t] IntDiv_s16_minus_one_sint [of v16 d t]
    IntDiv_s32_minus_one_sint [of v32 d t] IntDiv_s64_minus_one_sint [of v64 d t w]
  by simp

theorem IntDiv_one_and_minus_one_witness:
  "length [5, 0xFB :: 8 word] = Lanes 2 \<and> length [5, 0xFFFB :: 16 word] = Lanes 2
   \<and> length [5, 0xFFFFFFFB :: 32 word] = Lanes 2
   \<and> length [5, 0xFFFFFFFFFFFFFFFB :: 64 word] = Lanes 2
   \<and> 0x80 \<notin> set [5, 0xFB :: 8 word] \<and> 0x8000 \<notin> set [5, 0xFFFB :: 16 word]
   \<and> 0x80000000 \<notin> set [5, 0xFFFFFFFB :: 32 word]
   \<and> 0x8000000000000000 \<notin> set [5, 0xFFFFFFFFFFFFFFFB :: 64 word]
   \<and> map_option (IntDiv_u8 NEON 2 [5, 0xFB]) (ComputeDivisorParams_u8 1) = Some [5, 0xFB]
   \<and> map_option (IntDiv_s16 AVX2 2 [5, 0xFFFB]) (ComputeDivisorParams_s16 1) = Some [5, 0xFFFB]
   \<and> map_option (map sint \<circ> IntDiv_s8 NEON 2 [5, 0xFB]) (ComputeDivisorParams_s8 (- 1))
        = Some [- 5, 5]
   \<and> map_option (map sint \<circ> IntDiv_s16 AVX2 2 [5, 0xFFFB]) (ComputeDivisorParams_s16 (- 1))
        = Some [- 5, 5]
   \<and> map_option (map sint \<circ> IntDiv_s32 AVX2 2 [5, 0xFFFFFFFB]) (ComputeDivisorParams_s32 (- 1))
        = Some [- 5, 5]
   \<and> map_option (map sint \<circ> IntDiv_s64 PPC8 2 [5, 0xFFFFFFFFFFFFFFFB])
          (ComputeDivisorParams_s64 PortableKnuth (- 1))
        = Some [- 5, 5]"
  using IntDiv_one_and_minus_one [of "[5, 0xFB]" 2 "[5, 0xFFFB]" "[5, 0xFFFFFFFB]"
      "[5, 0xFFFFFFFFFFFFFFFB]" NEON PortableKnuth]
    IntDiv_one_and_minus_one [of "[5, 0xFB]" 2 "[5, 0xFFFB]" "[5, 0xFFFFFFFB]"
      "[5, 0xFFFFFFFFFFFFFFFB]" AVX2 PortableKnuth]
    IntDiv_one_and_minus_one [of "[5, 0xFB]" 2 "[5, 0xFFFB]" "[5, 0xFFFFFFFB]"
      "[5, 0xFFFFFFFFFFFFFFFB]" PPC8 PortableKnuth]
  by (simp add: Lanes_def)

section \<open>The minimum value divided by -1\<close>

text \<open>
  Claim C4: for every signed width, \<open>IntDiv\<close> of a vector whose lanes all hold the
  minimum value, with the parameters of \<open>ComputeDivisorParams(-1)\<close>, returns the
  minimum value in every lane, on every target.
\<close>

theorem IntDiv_min_by_minus_one:
  "map_option (IntDiv_s8 t d (Set_lanes d 0x80)) (ComputeDivisorParams_s8 (- 1))
     = Some (Set_lanes d 0x80) \<and>
   map_option (IntDiv_s16 t d (Set_lanes d 0x8000)) (ComputeDivisorParams_s16 (- 1))
     = Some (Set_lanes d 0x8000) \<and>
   map_option (IntDiv_s32 t d (Set_lanes d 0x80000000)) (ComputeDivisorParams_s32 (- 1))
     = Some (Set_lanes d 0x80000000) \<and>
   map_option (IntDiv_s64 t d (Set_lanes d 0x8000000000000000)) (ComputeDivisorParams_s64 w (- 1))
     = Some (Set_lanes d 0x8000000000000000)"
  by (simp add: ComputeDivisorParams_s8_minus_one ComputeDivisorParams_s16_minus_one
      ComputeDivisorParams_s32_minus_one ComputeDivisorParams_s64_minus_one
      IntDiv_s8_def IntDiv_s16_def IntDiv_s32_def IntDiv_s64_def ShiftRightUniform_0 lane_defs)

text \<open>
  Claim C10: for every signed width, \<open>IntDivFloor\<close> of a vector whose lanes all hold
  the minimum value, with the parameters of \<open>ComputeDivisorParams(-1)\<close>, returns the
  minimum value in every lane: the wrapping product of the quotient and the divisor is
  the dividend again, and nothing is subtracted.
\<close>

theorem IntDivFloor_min_by_minus_one:
  "map_option (IntDivFloor_s8 t d (Set_lanes d 0x80))
       (ComputeDivisorParams_s8 (- 1))
     = Some (Set_lanes d 0x80) \<and>
   map_option (IntDivFloor_s16 t d (Set_lanes d 0x8000))
       (ComputeDivisorParams_s16 (- 1))
     = Some (Set_lanes d 0x8000) \<and>
   map_option (IntDivFloor_s32 t d (Set_lanes d 0x80000000))
       (ComputeDivisorParams_s32 (- 1))
     = Some (Set_lanes d 0x80000000) \<and>
   map_option (IntDivFloor_s64 t d (Set_lanes d 0x8000000000000000))
       (ComputeDivisorParams_s64 w (- 1))
     = Some (Set_lanes d 0x8000000000000000)"
  by (simp add: ComputeDivisorParams_s8_minus_one ComputeDivisorParams_s16_minus_one
      ComputeDivisorParams_s32_minus_one ComputeDivisorParams_s64_minus_one
      IntDivFloor_s8_def IntDivFloor_s16_def IntDivFloor_s32_def IntDivFloor_s64_def
      IntDiv_s8_def IntDiv_s16_def IntDiv_s32_def IntDiv_s64_def ShiftRightUniform_0 lane_defs)

section \<open>The shift helper, as specified\<close>

text \<open>
  Claim C6: for the lane widths 8, 16, 32 and 64 and every integer count \<open>s\<close>,
  \<open>ShiftRightUniform\<close> returns the vector unchanged when \<open>s \<le> 0\<close>, shifts every
  lane by \<open>W - 1\<close> when \<open>s \<ge> W\<close>, and by \<open>s\<close> otherwise; the shift is arithmetic
  on signed lanes and logical on unsigned lanes.  This holds on every target, for the
  native variable shift and for the chain of immediate shifts.
\<close>

theorem ShiftRightUniform_clamped_shift:
  fixes v :: "'a::len vec"
  assumes "LENGTH('a) = 8 \<or> LENGTH('a) = 16 \<or> LENGTH('a) = 32 \<or> LENGTH('a) = 64"
    and "length v = Lanes d"
  shows "ShiftRightUniform t sg d v s =
     (if s \<le> 0 then v
      else if int LENGTH('a) \<le> s then
        (case sg of Signed \<Rightarrow> map (signed_drop_bit (LENGTH('a) - 1)) v
                  | Unsigned \<Rightarrow> map (drop_bit (LENGTH('a) - 1)) v)
      else
        (case sg of Signed \<Rightarrow> map (signed_drop_bit (nat s)) v
                  | Unsigned \<Rightarrow> map (drop_bit (nat s)) v))"
  using ShiftRightUniform_eq [OF assms, of t sg s]
  by (cases sg) (simp_all add: ShiftRight_def shr_lane_def)

theorem ShiftRightUniform_clamped_shift_witness:
  "(LENGTH(8) = 8 \<or> LENGTH(8) = 16 \<or> LENGTH(8) = 32 \<or> LENGTH(8) = 64)
   \<and> length [0x80, 0x7F :: 8 word] = Lanes 2
   \<and> ShiftRightUniform OtherTarget Signed 2 [0x80, 0x7F :: 8 word] 3 = [0xF0, 0x0F]
   \<and> ShiftRightUniform NEON Unsigned 2 [0x80, 0x7F :: 8 word] 9 = [1, 0]
   \<and> ShiftRightUniform AVX2 Signed 2 [0x80, 0x7F :: 8 word] (- 4) = [0x80, 0x7F]"
  using ShiftRightUniform_clamped_shift [of "[0x80, 0x7F :: 8 word]" 2 OtherTarget Signed 3]
    ShiftRightUniform_clamped_shift [of "[0x80, 0x7F :: 8 word]" 2 NEON Unsigned 9]
    ShiftRightUniform_clamped_shift [of "[0x80, 0x7F :: 8 word]" 2 AVX2 Signed "- 4"]
  by (simp add: Lanes_def)

section \<open>The convenience functions\<close>

lemma DivideByScalar_u8_eq:
  "dv \<noteq> 0 \<Longrightarrow>
     DivideByScalar_u8 t d v dv
       = map_option (IntDiv_u8 t d v) (ComputeDivisorParams_u8 dv)
     \<and> FloorDivideByScalar_u8 t d v dv
       = map_option (IntDivFloor_u8 t d v) (ComputeDivisorParams_u8 dv)
     \<and> ComputeDivisorParams_u8 dv \<noteq> None"
  by (simp add: DivideByScalar_u8_def FloorDivideByScalar_u8_def
      ComputeDivisorParams_u8_def IntDiv_u8_def IntDivFloor_u8_def Let_def
      split: option.splits)

lemma DivideByScalar_s8_eq:
  "dv \<noteq> 0 \<Longrightarrow>
     DivideByScalar_s8 t d v dv
       = map_option (IntDiv_s8 t d v) (ComputeDivisorParams_s8 dv)
     \<and> FloorDivideByScalar_s8 t d v dv
       = map_option (IntDivFloor_s8 t d v) (ComputeDivisorParams_s8 dv)
     \<and> ComputeDivisorParams_s8 dv \<noteq> None"
  by (simp add: DivideByScalar_s8_def FloorDivideByScalar_s8_def
      ComputeDivisorParams_s8_def Let_def split: option.splits)

lemma DivideByScalar_u16_eq:
  "dv \<noteq> 0 \<Longrightarrow>
     DivideByScalar_u16 t d v dv
       = map_option (IntDiv_u16 t d v) (ComputeDivisorParams_u16 dv)
     \<and> FloorDivideByScalar_u16 t d v dv
       = map_option (IntDivFloor_u16 t d v) (ComputeDivisorParams_u16 dv)
     \<and> ComputeDivisorParams_u16 dv \<noteq> None"
  by (simp add: DivideByScalar_u16_def FloorDivideByScalar_u16_def
      ComputeDivisorParams_u16_def IntDiv_u16_def IntDivFloor_u16_def Let_def
      split: option.splits)

lemma DivideByScalar_s16_eq:
  "dv \<noteq> 0 \<Longrightarrow>
     DivideByScalar_s16 t d v dv
       = map_option (IntDiv_s16 t d v) (ComputeDivisorParams_s16 dv)
     \<and> FloorDivideByScalar_s16 t d v dv
       = map_option (IntDivFloor_s16 t d v) (ComputeDivisorParams_s16 dv)
     \<and> ComputeDivisorParams_s16 dv \<noteq> None"
  by (simp add: DivideByScalar_s16_def FloorDivideByScalar_s16_def
      ComputeDivisorParams_s16_def Let_def split: option.splits)

lemma DivideByScalar_u32_eq:
  "dv \<noteq> 0 \<Longrightarrow>
     DivideByScalar_u32 t d v dv
       = map_option (IntDiv_u32 t d v) (ComputeDivisorParams_u32 dv)
     \<and> FloorDivideByScalar_u32 t d v dv
       = map_option (IntDivFloor_u32 t d v) (ComputeDivisorParams_u32 dv)
     \<and> ComputeDivisorParams_u32 dv \<noteq> None"
  by (simp add: DivideByScalar_u32_def FloorDivideByScalar_u32_def
      ComputeDivisorParams_u32_def IntDiv_u32_def IntDivFloor_u32_def Let_def
      split: option.splits)

lemma DivideByScalar_s32_eq:
  "dv \<noteq> 0 \<Longrightarrow>
     DivideByScalar_s32 t d v dv
       = map_option (IntDiv_s32 t d v) (ComputeDivisorParams_s32 dv)
     \<and> FloorDivideByScalar_s32 t d v dv
       = map_option (IntDivFloor_s32 t d v) (ComputeDivisorParams_s32 dv)
     \<and> ComputeDivisorParams_s32 dv \<noteq> None"
  by (simp add: DivideByScalar_s32_def FloorDivideByScalar_s32_def
      ComputeDivisorParams_s32_def Let_def split: option.splits)

lemma DivideByScalar_u64_eq:
  "dv \<noteq> 0 \<Longrightarrow>
     DivideByScalar_u64 w t d v dv
       = map_option (IntDiv_u64 t d v) (ComputeDivisorParams_u64 w dv)
     \<and> FloorDivideByScalar_u64 w t d v dv
       = map_option (IntDivFloor_u64 t d v) (ComputeDivisorParams_u64 w dv)
     \<and> ComputeDivisorParams_u64 w dv \<noteq> None"
  by (cases w) (simp_all add: DivideByScalar_u64_def FloorDivideByScalar_u64_def
      ComputeDivisorParams_u64_def IntDiv_u64_def IntDivFloor_u64_def Let_def DivideHighBy_def
      split: option.splits)

lemma DivideByScalar_s64_eq:
  "dv \<noteq> 0 \<Longrightarrow>
     DivideByScalar_s64 w t d v dv
       = map_option (IntDiv_s64 t d v) (ComputeDivisorParams_s64 w dv)
     \<and> FloorDivideByScalar_s64 w t d v dv
       = map_option (IntDivFloor_s64 t d v) (ComputeDivisorParams_s64 w dv)
     \<and> ComputeDivisorParams_s64 w dv \<noteq> None"
  by (cases w) (simp_all add: DivideByScalar_s64_def FloorDivideByScalar_s64_def
      ComputeDivisorParams_s64_def Let_def DivideHighBy_def split: option.splits)

text \<open>
  Claim C9: for every lane type, every dividend vector and every non-zero divisor,
  \<open>DivideByScalar\<close> returns the vector that \<open>IntDiv\<close> returns on the parameters of
  \<open>ComputeDivisorParams\<close>, also when the divisor is a power of two and the unsigned
  \<open>DivideByScalar\<close> shifts without computing parameters; \<open>FloorDivideByScalar\<close>
  agrees with \<open>IntDivFloor\<close> in the same way.  Both sides return a vector: the
  parameters of a non-zero divisor exist.
\<close>

theorem DivideByScalar_is_IntDiv_of_params:
  assumes "dv8 \<noteq> 0" "dv16 \<noteq> 0" "dv32 \<noteq> 0" "dv64 \<noteq> 0"
  shows "DivideByScalar_u8 t d v8 dv8
     = map_option (IntDiv_u8 t d v8) (ComputeDivisorParams_u8 dv8) \<and>
   FloorDivideByScalar_u8 t d v8 dv8
     = map_option (IntDivFloor_u8 t d v8) (ComputeDivisorParams_u8 dv8) \<and>
   ComputeDivisorParams_u8 dv8 \<noteq> None \<and>
   DivideByScalar_u16 t d v16 dv16
     = map_option (IntDiv_u16 t d v16) (ComputeDivisorParams_u16 dv16) \<and>
   FloorDivideByScalar_u16 t d v16 dv16
     = map_option (IntDivFloor_u16 t d v16) (ComputeDivisorParams_u16 dv16) \<and>
   ComputeDivisorParams_u16 dv16 \<noteq> None \<and>
   DivideByScalar_u32 t d v32 dv32
     = map_option (IntDiv_u32 t d v32) (ComputeDivisorParams_u32 dv32) \<and>
   FloorDivideByScalar_u32 t d v32 dv32
     = map_option (IntDivFloor_u32 t d v32) (ComputeDivisorParams_u32 dv32) \<and>
   ComputeDivisorParams_u32 dv32 \<noteq> None \<and>
   DivideByScalar_u64 w t d v64 dv64
     = map_option (IntDiv_u64 t d v64) (ComputeDivisorParams_u64 w dv64) \<and>
   FloorDivideByScalar_u64 w t d v64 dv64
     = map_option (IntDivFloor_u64 t d v64) (ComputeDivisorParams_u64 w dv64) \<and>
   ComputeDivisorParams_u64 w dv64 \<noteq> None \<and>
   DivideByScalar_s8 t d v8 dv8
     = map_option (IntDiv_s8 t d v8) (ComputeDivisorParams_s8 dv8) \<and>
   FloorDivideByScalar_s8 t d v8 dv8
     = map_option (IntDivFloor_s8 t d v8) (ComputeDivisorParams_s8 dv8) \<and>
   ComputeDivisorParams_s8 dv8 \<noteq> None \<and>
   DivideByScalar_s16 t d v16 dv16
     = map_option (IntDiv_s16 t d v16) (ComputeDivisorParams_s16 dv16) \<and>
   FloorDivideByScalar_s16 t d v16 dv16
     = map_option (IntDivFloor_s16 t d v16) (ComputeDivisorParams_s16 dv16) \<and>
   ComputeDivisorParams_s16 dv16 \<noteq> None \<and>
   DivideByScalar_s32 t d v32 dv32
     = map_option (IntDiv_s32 t d v32) (ComputeDivisorParams_s32 dv32) \<and>
   FloorDivideByScalar_s32 t d v32 dv32
     = map_option (IntDivFloor_s32 t d v32) (ComputeDivisorParams_s32 dv32) \<and>
   ComputeDivisorParams_s32 dv32 \<noteq> None \<and>
   DivideByScalar_s64 w t d v64 dv64
     = map_option (IntDiv_s64 t d v64) (ComputeDivisorParams_s64 w dv64) \<and>
   FloorDivideByScalar_s64 w t d v64 dv64
     = map_option (IntDivFloor_s64 t d v64) (ComputeDivisorParams_s64 w dv64) \<and>
   ComputeDivisorParams_s64 w dv64 \<noteq> None"
  using DivideByScalar_u8_eq [OF assms(1), of t d v8] DivideByScalar_s8_eq [OF assms(1), of t d v8]
    DivideByScalar_u16_eq [OF assms(2), of t d v16] DivideByScalar_s16_eq [OF assms(2), of t d v16]
    DivideByScalar_u32_eq [OF assms(3), of t d v32] DivideByScalar_s32_eq [OF assms(3), of t d v32]
    DivideByScalar_u64_eq [OF assms(4), of w t d v64] DivideByScalar_s64_eq [OF assms(4), of w t d v64]
  by (simp only: simp_thms)

theorem DivideByScalar_is_IntDiv_of_params_witness:
  "(4 :: 8 word) \<noteq> 0 \<and> (7 :: 16 word) \<noteq> 0 \<and> (0xFFFFFFFD :: 32 word) \<noteq> 0
   \<and> (1000000007 :: 64 word) \<noteq> 0
   \<and> DivideByScalar_u8 OtherTarget 2 [200, 7] 4
        = map_option (IntDiv_u8 OtherTarget 2 [200, 7]) (ComputeDivisorParams_u8 4)
   \<and> DivideByScalar_u8 OtherTarget 2 [200, 7] 4 = Some [50, 1]
   \<and> FloorDivideByScalar_s32 OtherTarget 2 [7, 0xFFFFFFF9] 0xFFFFFFFD
        = map_option (IntDivFloor_s32 OtherTarget 2 [7, 0xFFFFFFF9])
            (ComputeDivisorParams_s32 0xFFFFFFFD)
   \<and> FloorDivideByScalar_s32 OtherTarget 2 [7, 0xFFFFFFF9] 0xFFFFFFFD = Some [0xFFFFFFFD, 2]
   \<and> ComputeDivisorParams_u64 NativeInt128 1000000007 \<noteq> None"
proof -
  have nz: "(4 :: 8 word) \<noteq> 0" "(7 :: 16 word) \<noteq> 0" "(0xFFFFFFFD :: 32 word) \<noteq> 0"
    "(1000000007 :: 64 word) \<noteq> 0"
    by simp_all
  note inst = DivideByScalar_is_IntDiv_of_params [OF nz, of OtherTarget 2 "[200, 7]" "[200, 7]"
      "[7, 0xFFFFFFF9]" NativeInt128 "[0xFFFFFFFFFFFFFFFF]"]
  have c1: "DivideByScalar_u8 OtherTarget 2 [200, 7] 4
        = map_option (IntDiv_u8 OtherTarget 2 [200, 7]) (ComputeDivisorParams_u8 4)"
    using inst by (elim conjE) assumption
  have c2: "FloorDivideByScalar_s32 OtherTarget 2 [7, 0xFFFFFFF9] 0xFFFFFFFD
        = map_option (IntDivFloor_s32 OtherTarget 2 [7, 0xFFFFFFF9])
            (ComputeDivisorParams_s32 0xFFFFFFFD)"
    using inst by (elim conjE) assumption
  have c3: "ComputeDivisorParams_u64 NativeInt128 1000000007 \<noteq> None"
    using inst by (elim conjE) assumption
  have ev8: "DivideByScalar_u8 OtherTarget 2 [200, 7] 4 = Some [50, 1]"
    by code_simp
  have ev32: "FloorDivideByScalar_s32 OtherTarget 2 [7, 0xFFFFFFF9] 0xFFFFFFFD
      = Some [0xFFFFFFFD, 2]"
    by code_simp
  show ?thesis
    by (intro conjI nz c1 ev8 c2 ev32 c3)
qed

end
